theory Spec2Isabelle
  imports Main "HOL-Library.AList"
begin

section \<open>The 3D bot pipeline server (tools/3d-gen/server.py)\<close>

text \<open>
  The server sequences calls to third-party libraries and external processes. Each such
  collaborator is a field of an environment record: a function that either returns a value
  or raises. What the module itself owns is modelled as state: the two global model handles,
  the file system under the project root, and the order in which the accelerator-bound
  collaborators were called. Every handler takes the environment, the state and its
  request, and returns its outcome with the new state. Calls to the logger do not change
  control flow and are left out.
\<close>

subsection \<open>Exceptions\<close>

text \<open>
  The class of a raised exception decides which \<^verbatim>\<open>except\<close> clause takes it.
  \<open>OtherException\<close> stands for any other subclass of \<^verbatim>\<open>Exception\<close> (RuntimeError,
  OSError, ...), \<open>BaseOnly\<close> for a \<^verbatim>\<open>BaseException\<close> that is not an \<^verbatim>\<open>Exception\<close>
  (KeyboardInterrupt, SystemExit). The string is \<^verbatim>\<open>str(e)\<close>.
\<close>

datatype exc_class =
    ImportError | NameError | KeyError | TypeError | AttributeError
  | TimeoutExpired | OtherException | BaseOnly

type_synonym raised = "exc_class \<times> string"

text \<open>
  Inside a handler an exception is either one of those, or FastAPI's \<^verbatim>\<open>HTTPException\<close>
  with its status code and detail. The collaborators know nothing of FastAPI and raise the
  first kind only.
\<close>

datatype pyexc = Exc exc_class string | HTTPException nat string

definition isinstance_Exception :: "exc_class \<Rightarrow> bool" where
  "isinstance_Exception c = (c \<noteq> BaseOnly)"

fun is_http :: "pyexc \<Rightarrow> bool" where
  "is_http (HTTPException _ _) = True"
| "is_http (Exc _ _) = False"

fun reraise :: "raised \<Rightarrow> pyexc" where
  "reraise (c, m) = Exc c m"

subsection \<open>Values\<close>

text \<open>A Python float is kept as mantissa and exponent; no claim computes with one.\<close>

datatype pyfloat = PyFloat int int

datatype json =
    JNull | JBool bool | JInt int | JFloat pyfloat | JStr string
  | JList "json list" | JObj "(string \<times> json) list"

fun json_get :: "json \<Rightarrow> string \<Rightarrow> json option" where
  "json_get (JObj kvs) k = map_of kvs k"
| "json_get _ k = None"

record mesh =
  vertices :: "(pyfloat \<times> pyfloat \<times> pyfloat) list"
  faces :: "(nat \<times> nat \<times> nat) list"

record image =
  img_width :: nat
  img_height :: nat
  img_data :: string

datatype handle = Handle nat

subsection \<open>Paths and files\<close>

type_synonym path = string

datatype fsnode = File string | Dir

type_synonym filesys = "(path \<times> fsnode) list"

text \<open>\<^verbatim>\<open>a / b\<close> of pathlib for a relative \<open>b\<close>; normalisation of the result is not modelled.\<close>

definition path_join :: "path \<Rightarrow> string \<Rightarrow> path" where
  "path_join a b = (if b = [] then a else a @ ''/'' @ b)"

definition lstrip_slash :: "string \<Rightarrow> string" where
  "lstrip_slash s = dropWhile (\<lambda>c. c = CHR ''/'') s"

definition path_exists :: "filesys \<Rightarrow> path \<Rightarrow> bool" where
  "path_exists f p = (map_of f p \<noteq> None)"

definition write_file :: "filesys \<Rightarrow> path \<Rightarrow> string \<Rightarrow> filesys" where
  "write_file f p c = AList.update p (File c) f"

definition getsize :: "filesys \<Rightarrow> path \<Rightarrow> nat" where
  "getsize f p = (case map_of f p of Some (File c) \<Rightarrow> length c | _ \<Rightarrow> 0)"

text \<open>\<^verbatim>\<open>mkdir(parents=True, exist_ok=True)\<close>: a file of that name is an error.\<close>

definition mkdir_p :: "filesys \<Rightarrow> path \<Rightarrow> raised + filesys" where
  "mkdir_p f p =
     (case map_of f p of
        Some (File _) \<Rightarrow> Inl (OtherException, ''FileExistsError'')
      | Some Dir \<Rightarrow> Inr f
      | None \<Rightarrow> Inr (AList.update p Dir f))"

subsection \<open>The environment\<close>

text \<open>
  The collaborators of the model loader: the four imports at the head of the \<^verbatim>\<open>try\<close>
  (the first that fails, if any), \<^verbatim>\<open>torch.cuda.is_available\<close>, \<^verbatim>\<open>snapshot_download\<close>
  (repository, target directory; it may write to the file system and may raise),
  \<^verbatim>\<open>BriaRMBG.from_pretrained(...).to(device)\<close> with \<^verbatim>\<open>eval()\<close>,
  \<^verbatim>\<open>TripoSGPipeline.from_pretrained(...).to(device, dtype)\<close>, and the
  \<^verbatim>\<open>import torch; torch.cuda.empty_cache()\<close> of the release.
\<close>

record loader_env =
  import_triposg :: "raised option"
  cuda_is_available :: bool
  snapshot_download :: "string \<Rightarrow> path \<Rightarrow> filesys \<Rightarrow> raised option \<times> filesys"
  rmbg_from_pretrained :: "path \<Rightarrow> string \<Rightarrow> raised + handle"
  triposg_from_pretrained :: "path \<Rightarrow> string \<Rightarrow> string \<Rightarrow> raised + handle"
  empty_cache :: "raised option"

text \<open>
  The collaborators of \<^verbatim>\<open>/generate\<close>: the imports at the head of its \<^verbatim>\<open>try\<close>;
  \<^verbatim>\<open>Image.open\<close> on the uploaded bytes; the temporary PNG (\<^verbatim>\<open>NamedTemporaryFile\<close> and
  \<^verbatim>\<open>image.save\<close>, giving its path); \<^verbatim>\<open>prepare_image\<close>; \<^verbatim>\<open>os.unlink\<close>; the pipeline call
  with seed, step count and guidance scale, up to the \<^verbatim>\<open>trimesh.Trimesh\<close> built from its
  output; the face reduction from \<^verbatim>\<open>import pymeshlab\<close> to the \<^verbatim>\<open>trimesh.Trimesh\<close> built
  from the reduced mesh, for a mesh and a target face count; the rounded elapsed time;
  \<^verbatim>\<open>uuid.uuid4().hex\<close>; and \<^verbatim>\<open>mesh.export\<close>, giving the bytes of the file. A write that
  raises leaves no file.
\<close>

record gen_env =
  import_image_process :: "raised option"
  image_open :: "string \<Rightarrow> raised + image"
  save_temp_png :: "image \<Rightarrow> raised + path"
  prepare_image :: "path \<Rightarrow> handle option \<Rightarrow> raised + image"
  os_unlink :: "path \<Rightarrow> raised option"
  run_pipe :: "handle \<Rightarrow> image \<Rightarrow> int \<Rightarrow> int \<Rightarrow> pyfloat \<Rightarrow> raised + mesh"
  decimate :: "mesh \<Rightarrow> int \<Rightarrow> raised + mesh"
  elapsed :: pyfloat
  uuid4_hex :: string
  export_glb :: "mesh \<Rightarrow> raised + string"

text \<open>The accelerator probe of \<^verbatim>\<open>/status\<close> with its own \<^verbatim>\<open>try\<close>, and \<^verbatim>\<open>time.time()\<close>.\<close>

record status_env =
  gpu_probe :: json
  time_time :: pyfloat

text \<open>
  The state: the two module globals, the file system, and, for the claims on ordering, the
  calls made so far to the cache release, the inference pipeline and \<^verbatim>\<open>subprocess.run\<close>.
\<close>

datatype call = CallEmptyCache | CallInference | CallSubprocess "string list"

record state =
  triposg_pipe :: "handle option"
  rmbg_net :: "handle option"
  fs :: filesys
  calls :: "call list"

subsection \<open>Module constants\<close>

text \<open>
  \<^verbatim>\<open>PROJECT_ROOT\<close> and the directory of the script are resolved by the interpreter from
  \<^verbatim>\<open>__file__\<close>; \<^verbatim>\<open>sys.executable\<close> is the running interpreter.
\<close>

record site =
  PROJECT_ROOT :: path
  script_dir :: path
  sys_executable :: path

definition TOOLS_DIR :: "site \<Rightarrow> path" where
  "TOOLS_DIR st = path_join (PROJECT_ROOT st) ''tools''"

definition UNIRIG_DIR :: "site \<Rightarrow> path" where
  "UNIRIG_DIR st = path_join (TOOLS_DIR st) ''UniRig''"

definition OUTPUT_DIR :: "site \<Rightarrow> path" where
  "OUTPUT_DIR st =
     path_join (path_join (path_join (PROJECT_ROOT st) ''public'') ''parts'') ''generated''"

definition TRIPOSG_DIR :: "site \<Rightarrow> path" where
  "TRIPOSG_DIR st = path_join (script_dir st) ''TripoSG-model''"

definition TRIPOSG_WEIGHTS :: "site \<Rightarrow> path" where
  "TRIPOSG_WEIGHTS st = path_join (path_join (TRIPOSG_DIR st) ''pretrained_weights'') ''TripoSG''"

definition RMBG_WEIGHTS :: "site \<Rightarrow> path" where
  "RMBG_WEIGHTS st = path_join (path_join (TRIPOSG_DIR st) ''pretrained_weights'') ''RMBG-1.4''"

subsection \<open>Lazy loading of the generation models\<close>

text \<open>
  The body of the \<^verbatim>\<open>try\<close> in \<^verbatim>\<open>get_triposg_models\<close>. The global \<^verbatim>\<open>rmbg_net\<close> is
  assigned before the pipeline is loaded, so a failure of the second load leaves it set.
\<close>

definition load_models :: "site \<Rightarrow> loader_env \<Rightarrow> state \<Rightarrow> (raised + handle \<times> handle) \<times> state" where
  "load_models st le s =
     (case import_triposg le of
        Some e \<Rightarrow> (Inl e, s)
      | None \<Rightarrow>
          let device = (if cuda_is_available le then ''cuda'' else ''cpu'');
              dtype = (if device = ''cuda'' then ''float16'' else ''float32'');
              (r1, f1) = snapshot_download le ''VAST-AI/TripoSG'' (TRIPOSG_WEIGHTS st) (fs s);
              s1 = s\<lparr>fs := f1\<rparr>
          in case r1 of
               Some e \<Rightarrow> (Inl e, s1)
             | None \<Rightarrow>
                 let (r2, f2) = snapshot_download le ''briaai/RMBG-1.4'' (RMBG_WEIGHTS st) f1;
                     s2 = s1\<lparr>fs := f2\<rparr>
                 in case r2 of
                      Some e \<Rightarrow> (Inl e, s2)
                    | None \<Rightarrow>
                        (case rmbg_from_pretrained le (RMBG_WEIGHTS st) device of
                           Inl e \<Rightarrow> (Inl e, s2)
                         | Inr rm \<Rightarrow>
                             let s3 = s2\<lparr>rmbg_net := Some rm\<rparr>
                             in case triposg_from_pretrained le (TRIPOSG_WEIGHTS st) device dtype of
                                  Inl e \<Rightarrow> (Inl e, s3)
                                | Inr p \<Rightarrow> (Inr (p, rm), s3\<lparr>triposg_pipe := Some p\<rparr>)))"

text \<open>
  \<^verbatim>\<open>get_triposg_models\<close>: the cached pair when the pipeline is set; otherwise the load,
  with \<^verbatim>\<open>except ImportError\<close> and \<^verbatim>\<open>except Exception\<close> both returning \<^verbatim>\<open>(None, None)\<close>.
\<close>

definition get_triposg_models ::
  "site \<Rightarrow> loader_env \<Rightarrow> state \<Rightarrow> (pyexc + handle option \<times> handle option) \<times> state" where
  "get_triposg_models st le s =
     (case triposg_pipe s of
        Some p \<Rightarrow> (Inr (Some p, rmbg_net s), s)
      | None \<Rightarrow>
          (case load_models st le s of
             (Inr (p, rm), s') \<Rightarrow> (Inr (Some p, Some rm), s')
           | (Inl (c, m), s') \<Rightarrow>
               if c = ImportError then (Inr (None, None), s')
               else if isinstance_Exception c then (Inr (None, None), s')
               else (Inl (Exc c m), s')))"

text \<open>\<^verbatim>\<open>unload_triposg\<close>: both globals are cleared before the cache is emptied.\<close>

definition unload_triposg :: "loader_env \<Rightarrow> state \<Rightarrow> (pyexc + unit) \<times> state" where
  "unload_triposg le s =
     (if triposg_pipe s \<noteq> None \<or> rmbg_net s \<noteq> None then
        let s1 = s\<lparr>triposg_pipe := None, rmbg_net := None, calls := calls s @ [CallEmptyCache]\<rparr>
        in case empty_cache le of
             Some e \<Rightarrow> (Inl (reraise e), s1)
           | None \<Rightarrow> (Inr (), s1)
      else (Inr (), s))"

subsection \<open>Health and status\<close>

definition health :: "status_env \<Rightarrow> json" where
  "health se = JObj [(''status'', JStr ''ok''), (''timestamp'', JFloat (time_time se))]"

definition endswith :: "string \<Rightarrow> string \<Rightarrow> bool" where
  "endswith s suf = (length suf \<le> length s \<and> drop (length s - length suf) s = suf)"

text \<open>\<^verbatim>\<open>OUTPUT_DIR.glob("*.glb")\<close>: the direct children of the directory with that suffix.\<close>

definition glob_glb :: "filesys \<Rightarrow> path \<Rightarrow> path list" where
  "glob_glb f d =
     filter (\<lambda>p. take (length d + 1) p = d @ ''/'' \<and>
                 CHR ''/'' \<notin> set (drop (length d + 1) p) \<and>
                 endswith p ''.glb'')
       (map fst f)"

text \<open>
  \<^verbatim>\<open>status\<close>: the accelerator probe with its own \<^verbatim>\<open>try\<close> is one collaborator; the flag
  is \<^verbatim>\<open>triposg_pipe is not None\<close>.
\<close>

definition status :: "site \<Rightarrow> status_env \<Rightarrow> state \<Rightarrow> json" where
  "status st se s =
     JObj [(''gpu'', gpu_probe se),
           (''triposg_loaded'', JBool (triposg_pipe s \<noteq> None)),
           (''output_dir'', JStr (OUTPUT_DIR st)),
           (''generated_parts'', JInt (int (length (glob_glb (fs s) (OUTPUT_DIR st)))))]"

subsection \<open>POST /generate\<close>

record generate_req =
  file_bytes :: string
  filename :: string
  num_inference_steps :: int
  guidance_scale :: pyfloat
  seed :: int
  faces_arg :: int

text \<open>
  Lines 251 to 276: the imports, decoding the upload, the temporary PNG, and
  \<^verbatim>\<open>prepare_image\<close> under \<^verbatim>\<open>try ... finally: os.unlink(tmp_path)\<close>. The temporary file
  lives in the system's temporary directory, outside the modelled file system.
\<close>

definition preprocess :: "gen_env \<Rightarrow> string \<Rightarrow> handle option \<Rightarrow> raised + image" where
  "preprocess ge data rmbg =
     (case import_image_process ge of
        Some e \<Rightarrow> Inl e
      | None \<Rightarrow>
          (case image_open ge data of
             Inl e \<Rightarrow> Inl e
           | Inr img \<Rightarrow>
               (case save_temp_png ge img of
                  Inl e \<Rightarrow> Inl e
                | Inr tmp \<Rightarrow>
                    let r = prepare_image ge tmp rmbg
                    in case os_unlink ge tmp of Some e \<Rightarrow> Inl e | None \<Rightarrow> r)))"

text \<open>
  Lines 294 to 311, the optional face reduction: attempted only for a positive budget
  below the mesh's face count; an \<^verbatim>\<open>Exception\<close> of the tool keeps the full mesh.
\<close>

definition reduce_faces :: "gen_env \<Rightarrow> mesh \<Rightarrow> int \<Rightarrow> raised + mesh" where
  "reduce_faces ge m k =
     (if k > 0 \<and> int (length (faces m)) > k then
        (case decimate ge m k of
           Inr m' \<Rightarrow> Inr m'
         | Inl (c, msg) \<Rightarrow> if isinstance_Exception c then Inr m else Inl (c, msg))
      else Inr m)"

definition gen_part_id :: "gen_env \<Rightarrow> string" where
  "gen_part_id ge = ''gen_'' @ take 8 (uuid4_hex ge)"

definition gen_output_path :: "site \<Rightarrow> gen_env \<Rightarrow> path" where
  "gen_output_path st ge = path_join (OUTPUT_DIR st) (gen_part_id ge @ ''.glb'')"

definition generate_result :: "gen_env \<Rightarrow> mesh \<Rightarrow> json" where
  "generate_result ge m =
     JObj [(''part_id'', JStr (gen_part_id ge)),
           (''glb_path'', JStr (''/parts/generated/'' @ gen_part_id ge @ ''.glb'')),
           (''vertices'', JInt (int (length (vertices m)))),
           (''faces'', JInt (int (length (faces m)))),
           (''elapsed_s'', JFloat (elapsed ge))]"

text \<open>The body of the handler's \<^verbatim>\<open>try\<close>, lines 251 to 328.\<close>

definition generate_body ::
  "site \<Rightarrow> gen_env \<Rightarrow> state \<Rightarrow> generate_req \<Rightarrow> handle \<Rightarrow> handle option \<Rightarrow> (raised + json) \<times> state" where
  "generate_body st ge s req pipe rmbg =
     (case preprocess ge (file_bytes req) rmbg of
        Inl e \<Rightarrow> (Inl e, s)
      | Inr img \<Rightarrow>
          let s1 = s\<lparr>calls := calls s @ [CallInference]\<rparr>
          in case run_pipe ge pipe img (seed req) (num_inference_steps req) (guidance_scale req) of
               Inl e \<Rightarrow> (Inl e, s1)
             | Inr mesh0 \<Rightarrow>
                 (case reduce_faces ge mesh0 (faces_arg req) of
                    Inl e \<Rightarrow> (Inl e, s1)
                  | Inr m \<Rightarrow>
                      (case export_glb ge m of
                         Inl e \<Rightarrow> (Inl e, s1)
                       | Inr bytes \<Rightarrow>
                           (Inr (generate_result ge m),
                            s1\<lparr>fs := write_file (fs s1) (gen_output_path st ge) bytes\<rparr>))))"

text \<open>
  \<^verbatim>\<open>generate_3d\<close>: the models are acquired outside the \<^verbatim>\<open>try\<close>; a missing pipeline
  is the 503; \<^verbatim>\<open>except Exception\<close> turns what the body raises into the 500.
\<close>

definition generate_3d ::
  "site \<Rightarrow> loader_env \<Rightarrow> gen_env \<Rightarrow> state \<Rightarrow> generate_req \<Rightarrow> (pyexc + json) \<times> state" where
  "generate_3d st le ge s req =
     (case get_triposg_models st le s of
        (Inl e, s1) \<Rightarrow> (Inl e, s1)
      | (Inr (pipe, rmbg), s1) \<Rightarrow>
          (case pipe of
             None \<Rightarrow>
               (Inl (HTTPException 503 ''TripoSG model not available. Install dependencies first.''), s1)
           | Some p \<Rightarrow>
               (case generate_body st ge s1 req p rmbg of
                  (Inr r, s2) \<Rightarrow> (Inr r, s2)
                | (Inl (c, m), s2) \<Rightarrow>
                    if isinstance_Exception c
                    then (Inl (HTTPException 500 (''Generation failed: '' @ m)), s2)
                    else (Inl (Exc c m), s2))))"

subsection \<open>Python operations on request and result values\<close>

text \<open>\<^verbatim>\<open>d[k]\<close>, \<^verbatim>\<open>d.get(k, default)\<close>, \<^verbatim>\<open>len(v)\<close> and \<^verbatim>\<open>for r in v\<close> on a decoded value.\<close>

definition repr_str :: "string \<Rightarrow> string" where
  "repr_str x = [CHR 0x27] @ x @ [CHR 0x27]"

fun py_getitem :: "json \<Rightarrow> string \<Rightarrow> raised + json" where
  "py_getitem (JObj kvs) k =
     (case map_of kvs k of None \<Rightarrow> Inl (KeyError, repr_str k) | Some v \<Rightarrow> Inr v)"
| "py_getitem _ k = Inl (TypeError, ''not subscriptable by a string key'')"

fun py_get :: "json \<Rightarrow> string \<Rightarrow> json \<Rightarrow> raised + json" where
  "py_get (JObj kvs) k d = Inr (case map_of kvs k of None \<Rightarrow> d | Some v \<Rightarrow> v)"
| "py_get _ k d = Inl (AttributeError, ''get'')"

fun py_len :: "json \<Rightarrow> raised + nat" where
  "py_len (JList xs) = Inr (length xs)"
| "py_len (JStr x) = Inr (length x)"
| "py_len (JObj kvs) = Inr (length kvs)"
| "py_len _ = Inl (TypeError, ''object has no len()'')"

fun py_iter :: "json \<Rightarrow> raised + json list" where
  "py_iter (JList xs) = Inr xs"
| "py_iter (JStr x) = Inr (map (\<lambda>c. JStr [c]) x)"
| "py_iter (JObj kvs) = Inr (map (\<lambda>kv. JStr (fst kv)) kvs)"
| "py_iter _ = Inl (TypeError, ''object is not iterable'')"

definition digit_char :: "nat \<Rightarrow> char" where
  "digit_char d = ''0123456789'' ! d"

fun str_nat :: "nat \<Rightarrow> string" where
  "str_nat n = (if n < 10 then [digit_char n] else str_nat (n div 10) @ [digit_char (n mod 10)])"

subsection \<open>POST /search-image\<close>

record search_req =
  query :: string
  remove_bg :: bool

text \<open>
  The collaborators of \<^verbatim>\<open>/search-image\<close>: the import of the search library; the search
  (query, \<^verbatim>\<open>max_results\<close>) with the result made a list; \<^verbatim>\<open>import httpx\<close>; the download
  with \<^verbatim>\<open>raise_for_status\<close>, giving the content; \<^verbatim>\<open>Image.open(...).convert("RGBA")\<close>;
  \<^verbatim>\<open>import rembg\<close>; \<^verbatim>\<open>rembg.remove\<close>; \<^verbatim>\<open>uuid.uuid4().hex\<close>; \<^verbatim>\<open>image.save\<close>, giving the
  bytes of the file.
\<close>

record search_env =
  import_ddgs :: "raised option"
  ddgs_images :: "string \<Rightarrow> nat \<Rightarrow> raised + json list"
  import_httpx :: "raised option"
  http_get :: "json \<Rightarrow> raised + string"
  image_open_rgba :: "string \<Rightarrow> raised + image"
  import_rembg :: "raised option"
  rembg_remove :: "image \<Rightarrow> raised + image"
  ref_uuid4_hex :: string
  image_save :: "image \<Rightarrow> raised + string"

text \<open>Lines 366 to 373: only an \<^verbatim>\<open>ImportError\<close> is swallowed by the inner \<^verbatim>\<open>try\<close>.\<close>

definition strip_background :: "search_env \<Rightarrow> bool \<Rightarrow> image \<Rightarrow> raised + image" where
  "strip_background se flag img =
     (if flag then
        (case import_rembg se of
           Some (c, m) \<Rightarrow> if c = ImportError then Inr img else Inl (c, m)
         | None \<Rightarrow>
             (case rembg_remove se img of
                Inr img' \<Rightarrow> Inr img'
              | Inl (c, m) \<Rightarrow> if c = ImportError then Inr img else Inl (c, m)))
      else Inr img)"

fun all_results :: "json list \<Rightarrow> raised + json list" where
  "all_results [] = Inr []"
| "all_results (r # rs) =
     (case py_getitem r ''image'' of
        Inl e \<Rightarrow> Inl e
      | Inr u \<Rightarrow>
          (case py_get r ''title'' (JStr []) of
             Inl e \<Rightarrow> Inl e
           | Inr t \<Rightarrow>
               (case all_results rs of
                  Inl e \<Rightarrow> Inl e
                | Inr js \<Rightarrow> Inr (JObj [(''url'', u), (''title'', t)] # js))))"

definition no_images :: json where
  "no_images = JObj [(''images'', JList []), (''message'', JStr ''No images found'')]"

definition ref_image_id :: "search_env \<Rightarrow> string" where
  "ref_image_id se = ''ref_'' @ take 8 (ref_uuid4_hex se)"

definition ref_output_path :: "site \<Rightarrow> search_env \<Rightarrow> path" where
  "ref_output_path st se = path_join (OUTPUT_DIR st) (ref_image_id se @ ''.png'')"

text \<open>The body of the handler's \<^verbatim>\<open>try\<close>, lines 344 to 388.\<close>

definition search_body :: "site \<Rightarrow> search_env \<Rightarrow> state \<Rightarrow> search_req \<Rightarrow> (raised + json) \<times> state" where
  "search_body st se s req =
     (case import_ddgs se of
        Some e \<Rightarrow> (Inl e, s)
      | None \<Rightarrow>
          (case ddgs_images se (query req) 5 of
             Inl e \<Rightarrow> (Inl e, s)
           | Inr results \<Rightarrow>
               (case results of
                  [] \<Rightarrow> (Inr no_images, s)
                | r0 # _ \<Rightarrow>
                    (case import_httpx se of
                       Some e \<Rightarrow> (Inl e, s)
                     | None \<Rightarrow>
                         (case py_getitem r0 ''image'' of
                            Inl e \<Rightarrow> (Inl e, s)
                          | Inr image_url \<Rightarrow>
                              (case http_get se image_url of
                                 Inl e \<Rightarrow> (Inl e, s)
                               | Inr content \<Rightarrow>
                                   (case image_open_rgba se content of
                                      Inl e \<Rightarrow> (Inl e, s)
                                    | Inr img0 \<Rightarrow>
                                        (case strip_background se (remove_bg req) img0 of
                                           Inl e \<Rightarrow> (Inl e, s)
                                         | Inr img \<Rightarrow>
                                             let img_id = ref_image_id se;
                                                 img_path = ref_output_path st se
                                             in case image_save se img of
                                                  Inl e \<Rightarrow> (Inl e, s)
                                                | Inr bytes \<Rightarrow>
                                                    let s1 = s\<lparr>fs := write_file (fs s) img_path bytes\<rparr>
                                                    in case all_results (take 5 results) of
                                                         Inl e \<Rightarrow> (Inl e, s1)
                                                       | Inr rs \<Rightarrow>
                                                           (Inr (JObj
                                                              [(''image_id'', JStr img_id),
                                                               (''image_path'', JStr (''/parts/generated/'' @ img_id @ ''.png'')),
                                                               (''source_url'', image_url),
                                                               (''size'', JList [JInt (int (img_width img)), JInt (int (img_height img))]),
                                                               (''all_results'', JList rs)]), s1)))))))))"

definition search_image :: "site \<Rightarrow> search_env \<Rightarrow> state \<Rightarrow> search_req \<Rightarrow> (pyexc + json) \<times> state" where
  "search_image st se s req =
     (case search_body st se s req of
        (Inr r, s1) \<Rightarrow> (Inr r, s1)
      | (Inl (c, m), s1) \<Rightarrow>
          if c = ImportError
          then (Inl (HTTPException 503
                  ''duckduckgo_search not installed. pip install duckduckgo_search httpx''), s1)
          else if isinstance_Exception c
          then (Inl (HTTPException 500 (''Image search failed: '' @ m)), s1)
          else (Inl (Exc c m), s1))"

subsection \<open>POST /merge\<close>

type_synonym part = "(string \<times> json) list"

record merge_req =
  parts :: "part list"
  output_name :: string

datatype loaded = LoadedMesh mesh | LoadedScene "(string \<times> mesh) list"

type_synonym matrix = "pyfloat list list"

text \<open>The combined scene: node name, geometry and transform of every geometry added.\<close>

type_synonym scene = "(string \<times> mesh \<times> matrix) list"

text \<open>
  The collaborators of \<^verbatim>\<open>/merge\<close>: \<^verbatim>\<open>trimesh.load\<close> on a path and what is there,
  \<^verbatim>\<open>np.radians\<close>, \<^verbatim>\<open>compose_matrix(translate, angles)\<close>, and the export of the scene.
\<close>

record merge_env =
  trimesh_load :: "path \<Rightarrow> fsnode \<Rightarrow> raised + loaded"
  np_radians :: "json \<Rightarrow> raised + pyfloat"
  compose_matrix :: "json \<Rightarrow> pyfloat list \<Rightarrow> raised + matrix"
  export_scene :: "scene \<Rightarrow> raised + string"

definition zero3 :: json where
  "zero3 = JList [JInt 0, JInt 0, JInt 0]"

text \<open>\<^verbatim>\<open>part["path"].lstrip("/")\<close>: the key may be missing and the value may not be a string.\<close>

definition part_path_str :: "part \<Rightarrow> raised + string" where
  "part_path_str pt =
     (case map_of pt ''path'' of
        None \<Rightarrow> Inl (KeyError, repr_str ''path'')
      | Some (JStr x) \<Rightarrow> Inr x
      | Some _ \<Rightarrow> Inl (AttributeError, ''lstrip''))"

definition part_get :: "part \<Rightarrow> string \<Rightarrow> json \<Rightarrow> json" where
  "part_get pt k d = (case map_of pt k of None \<Rightarrow> d | Some v \<Rightarrow> v)"

text \<open>\<^verbatim>\<open>[np.radians(r) for r in rot]\<close>, stopping at the first element that raises.\<close>

fun radians_all :: "merge_env \<Rightarrow> json list \<Rightarrow> raised + pyfloat list" where
  "radians_all me [] = Inr []"
| "radians_all me (r # rs) =
     (case np_radians me r of
        Inl e \<Rightarrow> Inl e
      | Inr a \<Rightarrow> (case radians_all me rs of Inl e \<Rightarrow> Inl e | Inr as \<Rightarrow> Inr (a # as)))"

text \<open>Lines 415 to 422: the defaults and the composed transform of one part.\<close>

definition part_transform :: "merge_env \<Rightarrow> part \<Rightarrow> raised + matrix" where
  "part_transform me pt =
     (let pos = part_get pt ''position'' zero3;
          rot = part_get pt ''rotation'' zero3
      in case py_iter rot of
           Inl e \<Rightarrow> Inl e
         | Inr rs \<Rightarrow>
             (case radians_all me rs of
                Inl e \<Rightarrow> Inl e
              | Inr angles \<Rightarrow> compose_matrix me pos angles))"

text \<open>One pass of the loop body, lines 410 to 428: the nodes this part adds to the scene.\<close>

definition merge_part :: "site \<Rightarrow> merge_env \<Rightarrow> filesys \<Rightarrow> nat \<Rightarrow> part \<Rightarrow> pyexc + scene" where
  "merge_part st me f i pt =
     (case part_path_str pt of
        Inl e \<Rightarrow> Inl (reraise e)
      | Inr p \<Rightarrow>
          let part_path = path_join (PROJECT_ROOT st) (lstrip_slash p)
          in case map_of f part_path of
               None \<Rightarrow> Inl (HTTPException 404 (''Part not found: '' @ p))
             | Some node \<Rightarrow>
                 (case trimesh_load me part_path node of
                    Inl e \<Rightarrow> Inl (reraise e)
                  | Inr ld \<Rightarrow>
                      (case part_transform me pt of
                         Inl e \<Rightarrow> Inl (reraise e)
                       | Inr transform \<Rightarrow>
                           Inr (case ld of
                                  LoadedScene geoms \<Rightarrow>
                                    map (\<lambda>(name, geom).
                                          (''part_'' @ str_nat i @ ''_'' @ name, geom, transform)) geoms
                                | LoadedMesh m \<Rightarrow> [(''part_'' @ str_nat i, m, transform)]))))"

fun merge_loop :: "site \<Rightarrow> merge_env \<Rightarrow> filesys \<Rightarrow> nat \<Rightarrow> part list \<Rightarrow> scene \<Rightarrow> pyexc + scene" where
  "merge_loop st me f i [] combined = Inr combined"
| "merge_loop st me f i (pt # rest) combined =
     (case merge_part st me f i pt of
        Inl e \<Rightarrow> Inl e
      | Inr nodes \<Rightarrow> merge_loop st me f (Suc i) rest (combined @ nodes))"

definition merge_output_path :: "site \<Rightarrow> merge_req \<Rightarrow> path" where
  "merge_output_path st req = path_join (OUTPUT_DIR st) (output_name req @ ''.glb'')"

text \<open>\<^verbatim>\<open>merge_parts\<close>: the handler has no \<^verbatim>\<open>try\<close>; whatever the loop or the export raises leaves it.\<close>

definition merge_parts :: "site \<Rightarrow> merge_env \<Rightarrow> state \<Rightarrow> merge_req \<Rightarrow> (pyexc + json) \<times> state" where
  "merge_parts st me s req =
     (case merge_loop st me (fs s) 0 (parts req) [] of
        Inl e \<Rightarrow> (Inl e, s)
      | Inr combined \<Rightarrow>
          (case export_scene me combined of
             Inl e \<Rightarrow> (Inl (reraise e), s)
           | Inr bytes \<Rightarrow>
               let f' = write_file (fs s) (merge_output_path st req) bytes
               in (Inr (JObj
                     [(''merged_path'', JStr (''/parts/generated/'' @ output_name req @ ''.glb'')),
                      (''parts_count'', JInt (int (length (parts req)))),
                      (''file_size'', JInt (int (getsize f' (merge_output_path st req))))]),
                   s\<lparr>fs := f'\<rparr>)))"

subsection \<open>POST /rig\<close>

record rig_req =
  glb_path :: string
  rig_output_name :: string

record completed =
  returncode :: int
  stderr :: string

text \<open>
  \<^verbatim>\<open>subprocess.run\<close> gets the command, the working directory and the timeout; the
  process may change the file system, and the call may raise (\<open>TimeoutExpired\<close> included).
\<close>

record rig_env =
  subprocess_run :: "string list \<Rightarrow> path \<Rightarrow> nat \<Rightarrow> filesys \<Rightarrow> (raised + completed) \<times> filesys"
  json_load :: "string \<Rightarrow> raised + json"

definition run_step ::
  "rig_env \<Rightarrow> state \<Rightarrow> string list \<Rightarrow> path \<Rightarrow> nat \<Rightarrow> (raised + completed) \<times> state" where
  "run_step re s cmd cwd t =
     (let (r, f') = subprocess_run re cmd cwd t (fs s)
      in (r, s\<lparr>fs := f', calls := calls s @ [CallSubprocess cmd]\<rparr>))"

definition work_dir_of :: "site \<Rightarrow> rig_req \<Rightarrow> path" where
  "work_dir_of st req = path_join (OUTPUT_DIR st) (''rig_'' @ rig_output_name req)"

definition skin_export_script :: "site \<Rightarrow> path" where
  "skin_export_script st = path_join (UNIRIG_DIR st) ''export_skin_json.py''"

definition skin_json_path :: "site \<Rightarrow> rig_req \<Rightarrow> path" where
  "skin_json_path st req = path_join (work_dir_of st req) ''skin.json''"

definition unirig_python :: "site \<Rightarrow> filesys \<Rightarrow> path" where
  "unirig_python st f =
     (let py = path_join (path_join (path_join (UNIRIG_DIR st) ''venv'') ''Scripts'') ''python.exe''
      in if path_exists f py then py else sys_executable st)"

definition skel_cmd :: "path \<Rightarrow> path \<Rightarrow> path \<Rightarrow> string list" where
  "skel_cmd py glb wd =
     [py, ''-m'', ''src.main'', ''input.mesh_path='' @ glb,
      ''resources.skeleton_config=configs/task/quick_inference_skel_win.yaml'',
      ''output.directory='' @ wd]"

definition skin_cmd :: "path \<Rightarrow> path \<Rightarrow> path \<Rightarrow> string list" where
  "skin_cmd py glb wd =
     [py, ''-m'', ''src.main'', ''input.mesh_path='' @ glb,
      ''resources.skin_config=configs/task/quick_inference_skin_win.yaml'',
      ''output.directory='' @ wd]"

definition export_cmd :: "site \<Rightarrow> rig_req \<Rightarrow> path \<Rightarrow> string list" where
  "export_cmd st req py =
     [py, skin_export_script st, path_join (work_dir_of st req) ''predict_skin.npz'',
      skin_json_path st req]"

text \<open>Lines 482 to 491 and 503 to 512: a mandatory step; a nonzero exit code is the 500.\<close>

definition mandatory_step ::
  "site \<Rightarrow> rig_env \<Rightarrow> state \<Rightarrow> string list \<Rightarrow> string \<Rightarrow> (pyexc + unit) \<times> state" where
  "mandatory_step st re s cmd label =
     (case run_step re s cmd (UNIRIG_DIR st) 120 of
        (Inl e, s') \<Rightarrow> (Inl (reraise e), s')
      | (Inr res, s') \<Rightarrow>
          if returncode res \<noteq> 0
          then (Inl (HTTPException 500 (label @ take 500 (stderr res))), s')
          else (Inr (), s'))"

text \<open>
  Lines 514 to 531: the conversion runs only when the script exists; its exit code is
  logged and nothing else, but an exception of \<^verbatim>\<open>subprocess.run\<close> is not caught here.
\<close>

definition export_step :: "site \<Rightarrow> rig_env \<Rightarrow> state \<Rightarrow> rig_req \<Rightarrow> path \<Rightarrow> (pyexc + unit) \<times> state" where
  "export_step st re s req py =
     (if path_exists (fs s) (skin_export_script st) then
        (case run_step re s (export_cmd st req py) (UNIRIG_DIR st) 30 of
           (Inl e, s') \<Rightarrow> (Inl (reraise e), s')
         | (Inr res, s') \<Rightarrow> (Inr (), s'))
      else (Inr (), s))"

text \<open>Lines 533 to 552: the result, read back from \<^verbatim>\<open>skin.json\<close> when that file exists.\<close>

definition rig_result :: "site \<Rightarrow> rig_env \<Rightarrow> filesys \<Rightarrow> rig_req \<Rightarrow> raised + json" where
  "rig_result st re f req =
     (let base = [(''output_dir'', JStr (work_dir_of st req)), (''glb_input'', JStr (glb_path req))]
      in case map_of f (skin_json_path st req) of
           None \<Rightarrow>
             Inr (JObj (base @
               [(''skin_json'', JNull),
                (''message'', JStr ''Rigging completed but skin.json not generated'')]))
         | Some Dir \<Rightarrow> Inl (OtherException, ''IsADirectoryError'')
         | Some (File c) \<Rightarrow>
             (case json_load re c of
                Inl e \<Rightarrow> Inl e
              | Inr skin_data \<Rightarrow>
                  (case py_get skin_data ''bones'' (JList []) of
                     Inl e \<Rightarrow> Inl e
                   | Inr bones \<Rightarrow>
                       (case py_len bones of
                          Inl e \<Rightarrow> Inl e
                        | Inr nb \<Rightarrow>
                            (case py_get skin_data ''weights'' (JList []) of
                               Inl e \<Rightarrow> Inl e
                             | Inr weights \<Rightarrow>
                                 (case py_len weights of
                                    Inl e \<Rightarrow> Inl e
                                  | Inr nv \<Rightarrow>
                                      Inr (JObj (base @
                                        [(''skin_json'',
                                            JStr (''/parts/generated/rig_'' @ rig_output_name req @ ''/skin.json'')),
                                         (''bone_count'', JInt (int nb)),
                                         (''vertex_count'', JInt (int nv))]))))))))"

text \<open>The body of the handler's \<^verbatim>\<open>try\<close>, lines 460 to 552.\<close>

definition rig_try :: "site \<Rightarrow> rig_env \<Rightarrow> state \<Rightarrow> rig_req \<Rightarrow> path \<Rightarrow> (pyexc + json) \<times> state" where
  "rig_try st re s req glb =
     (case mkdir_p (fs s) (work_dir_of st req) of
        Inl e \<Rightarrow> (Inl (reraise e), s)
      | Inr f1 \<Rightarrow>
          let s1 = s\<lparr>fs := f1\<rparr>;
              py = unirig_python st f1
          in case mandatory_step st re s1 (skel_cmd py glb (work_dir_of st req))
                    ''Skeleton prediction failed: '' of
               (Inl e, s2) \<Rightarrow> (Inl e, s2)
             | (Inr _, s2) \<Rightarrow>
                 (case mandatory_step st re s2 (skin_cmd py glb (work_dir_of st req))
                         ''Skin prediction failed: '' of
                    (Inl e, s3) \<Rightarrow> (Inl e, s3)
                  | (Inr _, s3) \<Rightarrow>
                      (case export_step st re s3 req py of
                         (Inl e, s4) \<Rightarrow> (Inl e, s4)
                       | (Inr _, s4) \<Rightarrow>
                           (case rig_result st re (fs s4) req of
                              Inl e \<Rightarrow> (Inl (reraise e), s4)
                            | Inr r \<Rightarrow> (Inr r, s4)))))"

text \<open>
  The \<^verbatim>\<open>try\<close> with its clauses, lines 459 to 560, in the order of the source:
  \<^verbatim>\<open>subprocess.TimeoutExpired\<close>, then \<^verbatim>\<open>HTTPException\<close> (raised again), then \<^verbatim>\<open>Exception\<close>.
\<close>

definition rig_pipeline :: "site \<Rightarrow> rig_env \<Rightarrow> state \<Rightarrow> rig_req \<Rightarrow> path \<Rightarrow> (pyexc + json) \<times> state" where
  "rig_pipeline st re s req glb =
     (case rig_try st re s req glb of
        (Inr r, s') \<Rightarrow> (Inr r, s')
      | (Inl (HTTPException c d), s') \<Rightarrow> (Inl (HTTPException c d), s')
      | (Inl (Exc c m), s') \<Rightarrow>
          if c = TimeoutExpired then (Inl (HTTPException 504 ''Rigging timed out (120s limit)''), s')
          else if isinstance_Exception c then (Inl (HTTPException 500 (''Rigging failed: '' @ m)), s')
          else (Inl (Exc c m), s'))"

text \<open>
  The module's functions that a bare call statement \<^verbatim>\<open>name()\<close> can reach: the two of the
  model loader. A name the module does not bind raises \<^verbatim>\<open>NameError\<close> when the statement
  runs.
\<close>

definition module_functions ::
  "string \<Rightarrow> (site \<Rightarrow> loader_env \<Rightarrow> state \<Rightarrow> (pyexc + unit) \<times> state) option" where
  "module_functions =
     [''get_triposg_models'' \<mapsto>
        (\<lambda>st le s. case get_triposg_models st le s of
                     (Inl e, s') \<Rightarrow> (Inl e, s')
                   | (Inr _, s') \<Rightarrow> (Inr (), s')),
      ''unload_triposg'' \<mapsto> (\<lambda>st le s. unload_triposg le s)]"

definition call_statement :: "string \<Rightarrow> site \<Rightarrow> loader_env \<Rightarrow> state \<Rightarrow> (pyexc + unit) \<times> state" where
  "call_statement name st le s =
     (case module_functions name of
        None \<Rightarrow> (Inl (Exc NameError (''name '' @ repr_str name @ '' is not defined'')), s)
      | Some f \<Rightarrow> f st le s)"

text \<open>
  \<^verbatim>\<open>rig_bot\<close>, lines 447 to 560: the existence check, the statement
  \<^verbatim>\<open>unload_triposr()\<close> of line 455 (outside the \<^verbatim>\<open>try\<close>), then the \<^verbatim>\<open>try\<close>.
\<close>

definition rig_bot :: "site \<Rightarrow> loader_env \<Rightarrow> rig_env \<Rightarrow> state \<Rightarrow> rig_req \<Rightarrow> (pyexc + json) \<times> state" where
  "rig_bot st le re s req =
     (let glb = path_join (PROJECT_ROOT st) (lstrip_slash (glb_path req))
      in if \<not> path_exists (fs s) glb
         then (Inl (HTTPException 404 (''GLB not found: '' @ glb_path req)), s)
         else (case call_statement ''unload_triposr'' st le s of
                 (Inl e, s1) \<Rightarrow> (Inl e, s1)
               | (Inr _, s1) \<Rightarrow> rig_pipeline st re s1 req glb))"

subsection \<open>Static files and the service as a whole\<close>

datatype response = Json json | FileResponse path

definition serve_generated :: "site \<Rightarrow> state \<Rightarrow> string \<Rightarrow> pyexc + response" where
  "serve_generated st s name =
     (let file_path = path_join (OUTPUT_DIR st) name
      in if \<not> path_exists (fs s) file_path
         then Inl (HTTPException 404 (''File not found: '' @ name))
         else Inr (FileResponse file_path))"

text \<open>What the outside world does during one request.\<close>

record env =
  site_of :: site
  loader :: loader_env
  gen :: gen_env
  search :: search_env
  merge :: merge_env
  rig :: rig_env
  stat :: status_env

datatype request =
    Health | Status | Generate generate_req | SearchImage search_req
  | Merge merge_req | Rig rig_req | ServeGenerated string

definition as_json :: "(pyexc + json) \<times> state \<Rightarrow> (pyexc + response) \<times> state" where
  "as_json r = (case r of (Inl e, s) \<Rightarrow> (Inl e, s) | (Inr j, s) \<Rightarrow> (Inr (Json j), s))"

fun dispatch :: "env \<Rightarrow> state \<Rightarrow> request \<Rightarrow> (pyexc + response) \<times> state" where
  "dispatch e s Health = (Inr (Json (health (stat e))), s)"
| "dispatch e s Status = (Inr (Json (status (site_of e) (stat e) s)), s)"
| "dispatch e s (Generate req) = as_json (generate_3d (site_of e) (loader e) (gen e) s req)"
| "dispatch e s (SearchImage req) = as_json (search_image (site_of e) (search e) s req)"
| "dispatch e s (Merge req) = as_json (merge_parts (site_of e) (merge e) s req)"
| "dispatch e s (Rig req) = as_json (rig_bot (site_of e) (loader e) (rig e) s req)"
| "dispatch e s (ServeGenerated name) = (serve_generated (site_of e) s name, s)"

text \<open>A run of the service: the requests in order, each under its own environment.\<close>

fun run :: "state \<Rightarrow> (env \<times> request) list \<Rightarrow> state" where
  "run s [] = s"
| "run s ((e, r) # rest) = run (snd (dispatch e s r)) rest"

text \<open>The state when the module has been imported: both globals are \<^verbatim>\<open>None\<close>.\<close>

definition initial :: "filesys \<Rightarrow> state" where
  "initial f = \<lparr>triposg_pipe = None, rmbg_net = None, fs = f, calls = []\<rparr>"

subsection \<open>Conditions named by the specification\<close>

text \<open>
  The library is not installed: the imports at the head of the loader's \<^verbatim>\<open>try\<close> raise
  \<^verbatim>\<open>ImportError\<close>. The weight download fails: the imports pass and one of the two
  \<^verbatim>\<open>snapshot_download\<close> calls raises an \<^verbatim>\<open>Exception\<close>.
\<close>

definition library_not_installed :: "loader_env \<Rightarrow> bool" where
  "library_not_installed le =
     (case import_triposg le of Some (c, m) \<Rightarrow> c = ImportError | None \<Rightarrow> False)"

definition weight_download_fails :: "site \<Rightarrow> loader_env \<Rightarrow> filesys \<Rightarrow> bool" where
  "weight_download_fails st le f =
     (import_triposg le = None \<and>
      (case snapshot_download le ''VAST-AI/TripoSG'' (TRIPOSG_WEIGHTS st) f of
         (Some (c, m), f1) \<Rightarrow> isinstance_Exception c
       | (None, f1) \<Rightarrow>
           (case snapshot_download le ''briaai/RMBG-1.4'' (RMBG_WEIGHTS st) f1 of
              (Some (c, m), f2) \<Rightarrow> isinstance_Exception c
            | (None, f2) \<Rightarrow> False)))"





text \<open>A part as the specification reads it: the missing fields filled in with zeros.\<close>

definition with_defaults :: "part \<Rightarrow> part" where
  "with_defaults pt =
     pt @ (if map_of pt ''position'' = None then [(''position'', zero3)] else [])
        @ (if map_of pt ''rotation'' = None then [(''rotation'', zero3)] else [])"

fun is_generate :: "request \<Rightarrow> bool" where
  "is_generate (Generate req) = True"
| "is_generate _ = False"

definition reports_loaded :: "json \<Rightarrow> bool option" where
  "reports_loaded j =
     (case json_get j ''triposg_loaded'' of Some (JBool b) \<Rightarrow> Some b | _ \<Rightarrow> None)"

text \<open>The partial result of a rigging run that left no skin data.\<close>

definition no_skin_result :: "site \<Rightarrow> rig_req \<Rightarrow> json" where
  "no_skin_result st req =
     JObj [(''output_dir'', JStr (work_dir_of st req)),
           (''glb_input'', JStr (glb_path req)),
           (''skin_json'', JNull),
           (''message'', JStr ''Rigging completed but skin.json not generated'')]"

subsection \<open>A concrete installation, for evaluating the handlers\<close>

definition ex_site :: site where
  "ex_site = \<lparr>PROJECT_ROOT = ''/srv/bots'', script_dir = ''/srv/bots/tools/3d-gen'',
              sys_executable = ''/usr/bin/python3''\<rparr>"

definition ex_loader :: loader_env where
  "ex_loader =
     \<lparr>import_triposg = None, cuda_is_available = True,
      snapshot_download = (\<lambda>repo d f. (None, f)),
      rmbg_from_pretrained = (\<lambda>p d. Inr (Handle 1)),
      triposg_from_pretrained = (\<lambda>p d t. Inr (Handle 2)),
      empty_cache = None\<rparr>"

definition ex_loader_missing :: loader_env where
  "ex_loader_missing = ex_loader\<lparr>import_triposg := Some (ImportError, ''No module named torch'')\<rparr>"

definition ex_loader_offline :: loader_env where
  "ex_loader_offline =
     ex_loader\<lparr>snapshot_download := (\<lambda>repo d f. (Some (OtherException, ''connection refused''), f))\<rparr>"

definition ex_mesh :: "nat \<Rightarrow> mesh" where
  "ex_mesh n = \<lparr>vertices = replicate 3 (PyFloat 0 0, PyFloat 0 0, PyFloat 0 0),
                faces = replicate n (0, 1, 2)\<rparr>"

definition ex_gen :: gen_env where
  "ex_gen =
     \<lparr>import_image_process = None,
      image_open = (\<lambda>d. Inr \<lparr>img_width = 512, img_height = 512, img_data = d\<rparr>),
      save_temp_png = (\<lambda>i. Inr ''/tmp/tmpq1.png''),
      prepare_image = (\<lambda>p h. Inr \<lparr>img_width = 512, img_height = 512, img_data = ''rgb''\<rparr>),
      os_unlink = (\<lambda>p. None),
      run_pipe = (\<lambda>h i sd n g. Inr (ex_mesh 8)),
      decimate = (\<lambda>m k. Inr (m\<lparr>faces := take (nat k) (faces m)\<rparr>)),
      elapsed = PyFloat 5 0,
      uuid4_hex = ''0123456789abcdef0123456789abcdef'',
      export_glb = (\<lambda>m. Inr ''glTF'')\<rparr>"

definition ex_generate_req :: generate_req where
  "ex_generate_req = \<lparr>file_bytes = ''PNG'', filename = ''bot.png'', num_inference_steps = 50,
     guidance_scale = PyFloat 7 0, seed = 42, faces_arg = 4\<rparr>"

definition ex_status_env :: status_env where
  "ex_status_env = \<lparr>gpu_probe = JObj [(''available'', JBool False)], time_time = PyFloat 0 0\<rparr>"

definition ex_loaded :: state where
  "ex_loaded =
     \<lparr>triposg_pipe = Some (Handle 2), rmbg_net = Some (Handle 1),
      fs = [(''/srv/bots/public/parts/generated/gen_01234567.glb'', File ''glTF'')],
      calls = [CallInference]\<rparr>"

definition ex_fs :: filesys where
  "ex_fs =
     [(''/srv/bots/public/parts/arm.glb'', File ''glTF-arm''),
      (''/srv/bots/public/parts/leg.glb'', File ''glTF-leg''),
      (''/srv/bots/public/parts/broken.glb'', File ''junk''),
      (''/srv/bots/tools/UniRig/export_skin_json.py'', File ''script'')]"

text \<open>On whole degrees the example's \<^verbatim>\<open>np.radians\<close> scales by the double nearest to pi/180.\<close>

definition ex_merge :: merge_env where
  "ex_merge =
     \<lparr>trimesh_load = (\<lambda>p node. case node of
          File c \<Rightarrow> if c = ''junk'' then Inl (OtherException, ''not a GLB file'')
                    else Inr (LoadedMesh (ex_mesh 2))
        | Dir \<Rightarrow> Inl (OtherException, ''IsADirectoryError'')),
      np_radians = (\<lambda>j. case j of
          JInt n \<Rightarrow> Inr (PyFloat (n * 5030569068109113) (- 58))
        | _ \<Rightarrow> Inl (TypeError, ''ufunc radians not supported for the input types'')),
      compose_matrix = (\<lambda>pos angles. case pos of
          JList [JInt x, JInt y, JInt z] \<Rightarrow>
            if length angles = 3
            then Inr [angles, [PyFloat x 0, PyFloat y 0, PyFloat z 0]]
            else Inl (OtherException, ''angles'')
        | _ \<Rightarrow> Inl (OtherException, ''translate'')),
      export_scene = (\<lambda>sc. Inr (concat (map fst sc)))\<rparr>"

definition ex_part :: "string \<Rightarrow> part" where
  "ex_part name = [(''path'', JStr (''/public/parts/'' @ name))]"

definition ex_search :: search_env where
  "ex_search =
     \<lparr>import_ddgs = None,
      ddgs_images = (\<lambda>q n. if q = ''unobtainium robot'' then Inr []
          else Inr [JObj [(''image'', JStr ''http://img.example/bot.png''), (''title'', JStr ''bot'')]]),
      import_httpx = None,
      http_get = (\<lambda>u. Inr ''PNGDATA''),
      image_open_rgba = (\<lambda>d. Inr \<lparr>img_width = 64, img_height = 64, img_data = d\<rparr>),
      import_rembg = None,
      rembg_remove = (\<lambda>i. Inr i),
      ref_uuid4_hex = ''89abcdef0123456789abcdef01234567'',
      image_save = (\<lambda>i. Inr (img_data i))\<rparr>"

text \<open>
  Rigging toolchains: with every step exiting 0 and writing nothing; with the conversion
  exiting 1; with the conversion timing out; with a skin prediction that raises.
\<close>

definition ex_rig :: rig_env where
  "ex_rig =
     \<lparr>subprocess_run = (\<lambda>cmd cwd t f. (Inr \<lparr>returncode = 0, stderr = []\<rparr>, f)),
      json_load = (\<lambda>c. Inr (JObj [(''bones'', JList []), (''weights'', JList [])]))\<rparr>"

definition ex_rig_nonzero :: rig_env where
  "ex_rig_nonzero =
     ex_rig\<lparr>subprocess_run := (\<lambda>cmd cwd t f.
        if t = 30 then (Inr \<lparr>returncode = 1, stderr = ''no predict_skin.npz''\<rparr>, f)
        else (Inr \<lparr>returncode = 0, stderr = []\<rparr>, f))\<rparr>"

definition ex_rig_timeout :: rig_env where
  "ex_rig_timeout =
     ex_rig\<lparr>subprocess_run := (\<lambda>cmd cwd t f.
        if t = 30 then (Inl (TimeoutExpired, ''timed out after 30 seconds''), f)
        else (Inr \<lparr>returncode = 0, stderr = []\<rparr>, f))\<rparr>"


definition ex_rig_req :: rig_req where
  "ex_rig_req = \<lparr>glb_path = ''/public/parts/arm.glb'', rig_output_name = ''rigged_bot''\<rparr>"

definition ex_env :: env where
  "ex_env = \<lparr>site_of = ex_site, loader = ex_loader, gen = ex_gen, search = ex_search,
             merge = ex_merge, rig = ex_rig, stat = ex_status_env\<rparr>"



definition ex_merge_req_a :: merge_req where
  "ex_merge_req_a = \<lparr>parts = [ex_part ''arm.glb''], output_name = ''merged_bot''\<rparr>"

definition ex_merge_req_b :: merge_req where
  "ex_merge_req_b = \<lparr>parts = [ex_part ''leg.glb'', ex_part ''arm.glb''], output_name = ''merged_bot''\<rparr>"

definition ex_after_merge_a :: state where
  "ex_after_merge_a =
     initial (ex_fs @ [(''/srv/bots/public/parts/generated/merged_bot.glb'', File ''part_0'')])"

definition ex_search_2 :: search_env where
  "ex_search_2 = ex_search\<lparr>ref_uuid4_hex := ''fedcba9876543210fedcba9876543210''\<rparr>"

definition ex_gen_2 :: gen_env where
  "ex_gen_2 = ex_gen\<lparr>uuid4_hex := ''0123456a89abcdef0123456789abcdef''\<rparr>"

definition ex_env_missing :: env where
  "ex_env_missing = ex_env\<lparr>loader := ex_loader_missing\<rparr>"

definition ex_rig_glb :: path where
  "ex_rig_glb = ''/srv/bots/public/parts/arm.glb''"

definition ex_rig_dir :: path where
  "ex_rig_dir = ''/srv/bots/public/parts/generated/rig_rigged_bot''"

definition ex_rig_state :: "call list \<Rightarrow> state" where
  "ex_rig_state cs =
     \<lparr>triposg_pipe = None, rmbg_net = None, fs = ex_fs @ [(ex_rig_dir, Dir)], calls = cs\<rparr>"

definition ex_rig_calls :: "call list" where
  "ex_rig_calls =
     [CallSubprocess (skel_cmd ''/usr/bin/python3'' ex_rig_glb ex_rig_dir),
      CallSubprocess (skin_cmd ''/usr/bin/python3'' ex_rig_glb ex_rig_dir),
      CallSubprocess (export_cmd ex_site ex_rig_req ''/usr/bin/python3'')]"

section \<open>Properties\<close>

subsection \<open>The model loader\<close>

lemma load_models_library_missing:
  "library_not_installed le \<Longrightarrow> \<exists>m. load_models st le s = (Inl (ImportError, m), s)"
  by (auto simp: library_not_installed_def load_models_def split: option.splits)

lemma load_models_download_fails:
  "weight_download_fails st le (fs s) \<Longrightarrow>
     \<exists>c m s'. load_models st le s = (Inl (c, m), s') \<and> isinstance_Exception c \<and>
       triposg_pipe s' = triposg_pipe s \<and> calls s' = calls s"
  by (auto simp: weight_download_fails_def load_models_def Let_def split: option.splits prod.splits)

lemma get_models_unavailable:
  assumes "triposg_pipe s = None"
    and "library_not_installed le \<or> weight_download_fails st le (fs s)"
  shows "\<exists>s'. get_triposg_models st le s = (Inr (None, None), s') \<and> calls s' = calls s
           \<and> triposg_pipe s' = None"
  using assms(2)
proof
  assume "library_not_installed le"
  then obtain m where "load_models st le s = (Inl (ImportError, m), s)"
    using load_models_library_missing by blast
  then show ?thesis using assms(1) by (simp add: get_triposg_models_def)
next
  assume "weight_download_fails st le (fs s)"
  then obtain c m s' where "load_models st le s = (Inl (c, m), s')" "isinstance_Exception c"
      "triposg_pipe s' = triposg_pipe s" "calls s' = calls s"
    using load_models_download_fails by blast
  then show ?thesis using assms(1) by (simp add: get_triposg_models_def)
qed

text \<open>
  C6. When the library is not installed or the weight download fails, a call of
  \<^verbatim>\<open>get_triposg_models\<close> with nothing cached returns \<^verbatim>\<open>(None, None)\<close> and raises
  nothing, and the \<^verbatim>\<open>/generate\<close> request ends in the 503 \<open>model unavailable\<close> failure with
  no call of the inference pipeline.
\<close>

theorem acquire_failure_gives_503:
  assumes "triposg_pipe s = None"
    and "library_not_installed le \<or> weight_download_fails st le (fs s)"
  shows "(\<exists>s'. get_triposg_models st le s = (Inr (None, None), s')) \<and>
         (\<exists>s'. generate_3d st le ge s req = (Inl (HTTPException 503
                   ''TripoSG model not available. Install dependencies first.''), s') \<and>
               calls s' = calls s)"
proof -
  obtain s' where g: "get_triposg_models st le s = (Inr (None, None), s')" and c: "calls s' = calls s"
    using get_models_unavailable [OF assms] by blast
  have "generate_3d st le ge s req = (Inl (HTTPException 503
          ''TripoSG model not available. Install dependencies first.''), s')"
    by (simp add: generate_3d_def g)
  with g c show ?thesis by blast
qed

theorem acquire_failure_gives_503_witness:
  "triposg_pipe (initial []) = None \<and> library_not_installed ex_loader_missing \<and>
   weight_download_fails ex_site ex_loader_offline (fs (initial [])) \<and>
   fst (get_triposg_models ex_site ex_loader_missing (initial [])) = Inr (None, None) \<and>
   fst (generate_3d ex_site ex_loader_missing ex_gen (initial []) ex_generate_req) =
     Inl (HTTPException 503 ''TripoSG model not available. Install dependencies first.'') \<and>
   fst (generate_3d ex_site ex_loader_offline ex_gen (initial []) ex_generate_req) =
     Inl (HTTPException 503 ''TripoSG model not available. Install dependencies first.'')"
proof -
  have h1: "triposg_pipe (initial []) = None" by (simp add: initial_def)
  have h2: "library_not_installed ex_loader_missing"
    by (simp add: library_not_installed_def ex_loader_missing_def ex_loader_def)
  have h3: "weight_download_fails ex_site ex_loader_offline (fs (initial []))"
    by (simp add: weight_download_fails_def ex_loader_offline_def ex_loader_def isinstance_Exception_def)
  from acquire_failure_gives_503 [OF h1 disjI1 [OF h2], of ex_site ex_gen ex_generate_req]
       acquire_failure_gives_503 [OF h1 disjI2 [OF h3], of ex_gen ex_generate_req]
  show ?thesis using h1 h2 h3 by auto
qed

subsection \<open>The rigging handler's release of the models\<close>

text \<open>
  C1. The handler is to release the resident models before the first rigging subprocess.
  Evaluated on an existing mesh with both models resident: the statement of line 455
  names \<^verbatim>\<open>unload_triposr\<close>, which the module does not define, so the request ends in a
  \<^verbatim>\<open>NameError\<close> with both models still resident and no subprocess started, whatever the
  rigging toolchain would do. The function the loader does define, \<^verbatim>\<open>unload_triposg\<close>,
  called in that place, releases both.
\<close>

theorem rig_releases_nothing:
  "path_exists (fs ex_loaded) (path_join (PROJECT_ROOT ex_site)
       (lstrip_slash ''/public/parts/generated/gen_01234567.glb'')) \<and>
   triposg_pipe ex_loaded \<noteq> None \<and> rmbg_net ex_loaded \<noteq> None \<and>
   rig_bot ex_site ex_loader re ex_loaded
       \<lparr>glb_path = ''/public/parts/generated/gen_01234567.glb'', rig_output_name = ''rigged_bot''\<rparr> =
     (Inl (Exc NameError (''name '' @ repr_str ''unload_triposr'' @ '' is not defined'')), ex_loaded) \<and>
   call_statement ''unload_triposg'' ex_site ex_loader ex_loaded =
     (Inr (), ex_loaded\<lparr>triposg_pipe := None, rmbg_net := None,
                        calls := [CallInference, CallEmptyCache]\<rparr>)"
  by (simp add: rig_bot_def call_statement_def module_functions_def ex_loaded_def ex_site_def
        path_exists_def path_join_def lstrip_slash_def unload_triposg_def ex_loader_def)

subsection \<open>Face budget of a generated mesh\<close>

lemma generate_body_result:
  assumes "generate_body st ge s1 req p rm = (Inr resp, s2)"
  shows "\<exists>img mesh0 m bytes.
           preprocess ge (file_bytes req) rm = Inr img \<and>
           run_pipe ge p img (seed req) (num_inference_steps req) (guidance_scale req) = Inr mesh0 \<and>
           reduce_faces ge mesh0 (faces_arg req) = Inr m \<and>
           export_glb ge m = Inr bytes \<and>
           resp = generate_result ge m \<and>
           fs s2 = write_file (fs s1) (gen_output_path st ge) bytes"
  using assms
  by (auto simp: generate_body_def Let_def split: sum.splits)

lemma generate_3d_result:
  assumes "generate_3d st le ge s req = (Inr resp, s')"
  shows "\<exists>p rm s1. get_triposg_models st le s = (Inr (Some p, rm), s1) \<and>
           generate_body st ge s1 req p rm = (Inr resp, s')"
  using assms
  by (auto simp: generate_3d_def split: sum.splits prod.splits option.splits if_splits)





subsection \<open>Merging parts\<close>








lemma map_of_with_defaults:
  "map_of (with_defaults pt) k =
     (case map_of pt k of
        Some v \<Rightarrow> Some v
      | None \<Rightarrow> if k = ''position'' \<or> k = ''rotation'' then Some zero3 else None)"
  by (auto simp: with_defaults_def map_add_def split: option.splits)

lemma part_path_str_with_defaults: "part_path_str (with_defaults pt) = part_path_str pt"
  by (simp add: part_path_str_def map_of_with_defaults split: option.splits)

lemma part_transform_with_defaults: "part_transform me (with_defaults pt) = part_transform me pt"
  by (simp add: part_transform_def part_get_def map_of_with_defaults split: option.splits)

lemma merge_part_with_defaults: "merge_part st me f i (with_defaults pt) = merge_part st me f i pt"
  by (simp add: merge_part_def part_path_str_with_defaults part_transform_with_defaults
        cong: sum.case_cong option.case_cong)

lemma merge_loop_with_defaults:
  "merge_loop st me f i (map with_defaults ps) combined = merge_loop st me f i ps combined"
  by (induction ps arbitrary: i combined)
     (simp_all add: merge_part_with_defaults cong: sum.case_cong)

text \<open>
  C10. A part that omits \<^verbatim>\<open>position\<close> or \<^verbatim>\<open>rotation\<close> is handled as the same part with
  \<^verbatim>\<open>[0, 0, 0]\<close> in the missing field: the whole request gives the same outcome as the one
  with the zeros written out, so the omission by itself rejects nothing, and the
  transform of a part with neither field is composed from the zero translation and the
  radians of three zero angles.
\<close>

theorem merge_defaults:
  "merge_parts st me s (req\<lparr>parts := map with_defaults (parts req)\<rparr>) = merge_parts st me s req \<and>
   (map_of pt ''position'' = None \<longrightarrow> map_of pt ''rotation'' = None \<longrightarrow>
      part_transform me pt =
        (case radians_all me [JInt 0, JInt 0, JInt 0] of
           Inl e \<Rightarrow> Inl e
         | Inr angles \<Rightarrow> compose_matrix me (JList [JInt 0, JInt 0, JInt 0]) angles))"
  by (simp add: merge_parts_def merge_loop_with_defaults merge_output_path_def
        part_transform_def part_get_def zero3_def cong: sum.case_cong)

theorem merge_defaults_witness:
  "map_of (ex_part ''arm.glb'') ''position'' = None \<and>
   map_of (ex_part ''arm.glb'') ''rotation'' = None \<and>
   part_transform ex_merge (ex_part ''arm.glb'') =
     Inr [[PyFloat 0 (- 58), PyFloat 0 (- 58), PyFloat 0 (- 58)],
          [PyFloat 0 0, PyFloat 0 0, PyFloat 0 0]] \<and>
   fst (merge_parts ex_site ex_merge (initial ex_fs)
          \<lparr>parts = [ex_part ''arm.glb''], output_name = ''merged_bot''\<rparr>) =
     fst (merge_parts ex_site ex_merge (initial ex_fs)
          \<lparr>parts = [[(''path'', JStr ''/public/parts/arm.glb''),
                     (''position'', JList [JInt 0, JInt 0, JInt 0]),
                     (''rotation'', JList [JInt 0, JInt 0, JInt 0])]],
           output_name = ''merged_bot''\<rparr>) \<and>
   fst (merge_parts ex_site ex_merge (initial ex_fs)
          \<lparr>parts = [ex_part ''arm.glb''], output_name = ''merged_bot''\<rparr>) =
     Inr (JObj [(''merged_path'', JStr ''/parts/generated/merged_bot.glb''),
                (''parts_count'', JInt 1), (''file_size'', JInt 6)])"
proof -
  have h1: "map_of (ex_part ''arm.glb'') ''position'' = None" by (simp add: ex_part_def)
  have h2: "map_of (ex_part ''arm.glb'') ''rotation'' = None" by (simp add: ex_part_def)
  have d: "with_defaults (ex_part ''arm.glb'') =
      [(''path'', JStr ''/public/parts/arm.glb''),
       (''position'', JList [JInt 0, JInt 0, JInt 0]),
       (''rotation'', JList [JInt 0, JInt 0, JInt 0])]"
    by (simp add: with_defaults_def ex_part_def zero3_def)
  have r: "fst (merge_parts ex_site ex_merge (initial ex_fs)
          \<lparr>parts = [ex_part ''arm.glb''], output_name = ''merged_bot''\<rparr>) =
     Inr (JObj [(''merged_path'', JStr ''/parts/generated/merged_bot.glb''),
                (''parts_count'', JInt 1), (''file_size'', JInt 6)])"
    by (simp add: merge_parts_def merge_part_def ex_part_def part_path_str_def ex_site_def
        path_join_def lstrip_slash_def ex_fs_def ex_merge_def initial_def part_transform_def
        part_get_def zero3_def digit_char_def merge_output_path_def OUTPUT_DIR_def
        write_file_def getsize_def)
  from merge_defaults [of ex_site ex_merge "initial ex_fs"
         "\<lparr>parts = [ex_part ''arm.glb''], output_name = ''merged_bot''\<rparr>" "ex_part ''arm.glb''"]
  show ?thesis using h1 h2 d r
    by (simp add: ex_merge_def)
qed

subsection \<open>Exceptions at the handler boundary\<close>














subsection \<open>An empty search\<close>

text \<open>
  C9. When the search returns no result, \<^verbatim>\<open>/search-image\<close> answers with exactly
  \<^verbatim>\<open>{"images": [], "message": "No images found"}\<close> as a success, and the state is the one
  before the request: no file is written.
\<close>

theorem search_no_results:
  assumes "import_ddgs se = None" and "ddgs_images se (query req) 5 = Inr []"
  shows "search_image st se s req =
           (Inr (JObj [(''images'', JList []), (''message'', JStr ''No images found'')]), s)"
  using assms by (simp add: search_image_def search_body_def no_images_def)

theorem search_no_results_witness:
  "import_ddgs ex_search = None \<and>
   ddgs_images ex_search (query \<lparr>query = ''unobtainium robot'', remove_bg = True\<rparr>) 5 = Inr [] \<and>
   search_image ex_site ex_search (initial ex_fs) \<lparr>query = ''unobtainium robot'', remove_bg = True\<rparr> =
     (Inr (JObj [(''images'', JList []), (''message'', JStr ''No images found'')]), initial ex_fs)"
proof -
  have h1: "import_ddgs ex_search = None" by (simp add: ex_search_def)
  have h2: "ddgs_images ex_search (query \<lparr>query = ''unobtainium robot'', remove_bg = True\<rparr>) 5 = Inr []"
    by (simp add: ex_search_def)
  from search_no_results [OF h1 h2] h1 h2 show ?thesis by simp
qed

subsection \<open>Names of the files written\<close>

lemma path_join_inject:
  "a \<noteq> [] \<Longrightarrow> b \<noteq> [] \<Longrightarrow> path_join d a = path_join d b \<Longrightarrow> a = b"
  by (simp add: path_join_def)

lemma search_image_writes:
  "search_image st se s req = (Inr r, s') \<Longrightarrow>
     s' = s \<or> (\<exists>bytes. s' = s\<lparr>fs := write_file (fs s) (ref_output_path st se) bytes\<rparr>)"
  by (auto simp: search_image_def search_body_def Let_def
      split: option.splits sum.splits list.splits prod.splits if_splits)

lemma merge_parts_writes:
  "merge_parts st me s req = (Inr r, s') \<Longrightarrow>
     \<exists>bytes. s' = s\<lparr>fs := write_file (fs s) (merge_output_path st req) bytes\<rparr>"
  by (auto simp: merge_parts_def Let_def split: sum.splits)

lemma generate_3d_writes:
  assumes "generate_3d st le ge s req = (Inr r, s')"
  shows "\<exists>bytes. fs s' = write_file (fs (snd (get_triposg_models st le s))) (gen_output_path st ge) bytes"
proof -
  obtain p rm s1 where "get_triposg_models st le s = (Inr (Some p, rm), s1)"
      and "generate_body st ge s1 req p rm = (Inr r, s')"
    using generate_3d_result [OF assms] by blast
  then show ?thesis using generate_body_result [of st ge s1 req p rm r s'] by auto
qed

lemma gen_output_path_distinct:
  "take 8 (uuid4_hex ge) \<noteq> take 8 (uuid4_hex ge') \<Longrightarrow> gen_output_path st ge \<noteq> gen_output_path st ge'"
  by (auto simp: gen_output_path_def gen_part_id_def dest!: path_join_inject [rotated 2])

lemma ref_output_path_distinct:
  "take 8 (ref_uuid4_hex se) \<noteq> take 8 (ref_uuid4_hex se') \<Longrightarrow>
     ref_output_path st se \<noteq> ref_output_path st se'"
  by (auto simp: ref_output_path_def ref_image_id_def dest!: path_join_inject [rotated 2])

text \<open>
  C4, as the code has it. \<^verbatim>\<open>/generate\<close> writes its mesh to \<^verbatim>\<open>gen_\<close> and
  \<^verbatim>\<open>/search-image\<close> its image to \<^verbatim>\<open>ref_\<close> followed by the first eight hex digits of the
  request's random UUID, so two requests whose tokens differ in those digits write to
  different paths. \<^verbatim>\<open>/merge\<close> writes to the path made from the caller's
  \<^verbatim>\<open>output_name\<close>, and the work directory of \<^verbatim>\<open>/rig\<close> is made from it as well: no random
  token is involved, and two requests with the same name get the same path.
\<close>

theorem output_file_names:
  "(generate_3d st le ge s greq = (Inr r1, s1) \<longrightarrow>
      (\<exists>bytes. fs s1 = write_file (fs (snd (get_triposg_models st le s))) (gen_output_path st ge) bytes)) \<and>
   (take 8 (uuid4_hex ge) \<noteq> take 8 (uuid4_hex ge') \<longrightarrow>
      gen_output_path st ge \<noteq> gen_output_path st ge') \<and>
   (search_image st se s sreq = (Inr r2, s2) \<longrightarrow>
      s2 = s \<or> (\<exists>bytes. s2 = s\<lparr>fs := write_file (fs s) (ref_output_path st se) bytes\<rparr>)) \<and>
   (take 8 (ref_uuid4_hex se) \<noteq> take 8 (ref_uuid4_hex se') \<longrightarrow>
      ref_output_path st se \<noteq> ref_output_path st se') \<and>
   (merge_parts st me s mreq = (Inr r3, s3) \<longrightarrow>
      (\<exists>bytes. s3 = s\<lparr>fs := write_file (fs s) (merge_output_path st mreq) bytes\<rparr>)) \<and>
   (output_name mreq = output_name mreq' \<longrightarrow>
      merge_output_path st mreq = merge_output_path st mreq') \<and>
   (rig_output_name rreq = rig_output_name rreq' \<longrightarrow>
      work_dir_of st rreq = work_dir_of st rreq' \<and> skin_json_path st rreq = skin_json_path st rreq')"
proof (intro conjI impI)
  assume "generate_3d st le ge s greq = (Inr r1, s1)"
  then show "\<exists>bytes. fs s1 =
      write_file (fs (snd (get_triposg_models st le s))) (gen_output_path st ge) bytes"
    by (rule generate_3d_writes)
next
  assume "take 8 (uuid4_hex ge) \<noteq> take 8 (uuid4_hex ge')"
  then show "gen_output_path st ge \<noteq> gen_output_path st ge'" by (rule gen_output_path_distinct)
next
  assume "search_image st se s sreq = (Inr r2, s2)"
  then show "s2 = s \<or> (\<exists>bytes. s2 = s\<lparr>fs := write_file (fs s) (ref_output_path st se) bytes\<rparr>)"
    by (rule search_image_writes)
next
  assume "take 8 (ref_uuid4_hex se) \<noteq> take 8 (ref_uuid4_hex se')"
  then show "ref_output_path st se \<noteq> ref_output_path st se'" by (rule ref_output_path_distinct)
next
  assume "merge_parts st me s mreq = (Inr r3, s3)"
  then show "\<exists>bytes. s3 = s\<lparr>fs := write_file (fs s) (merge_output_path st mreq) bytes\<rparr>"
    by (rule merge_parts_writes)
next
  assume "output_name mreq = output_name mreq'"
  then show "merge_output_path st mreq = merge_output_path st mreq'"
    by (simp add: merge_output_path_def)
next
  assume "rig_output_name rreq = rig_output_name rreq'"
  then show "work_dir_of st rreq = work_dir_of st rreq'"
    by (simp add: work_dir_of_def)
next
  assume "rig_output_name rreq = rig_output_name rreq'"
  then show "skin_json_path st rreq = skin_json_path st rreq'"
    by (simp add: skin_json_path_def work_dir_of_def)
qed

lemma ex_merge_a:
  "merge_parts ex_site ex_merge (initial ex_fs) ex_merge_req_a =
     (Inr (JObj [(''merged_path'', JStr ''/parts/generated/merged_bot.glb''),
                 (''parts_count'', JInt 1), (''file_size'', JInt 6)]),
      ex_after_merge_a)"
  by (simp add: merge_parts_def merge_part_def ex_part_def part_path_str_def ex_site_def
        path_join_def lstrip_slash_def ex_fs_def ex_merge_def initial_def part_transform_def
        part_get_def zero3_def digit_char_def merge_output_path_def OUTPUT_DIR_def
        write_file_def getsize_def ex_merge_req_a_def ex_after_merge_a_def)

lemma ex_merge_b:
  "merge_parts ex_site ex_merge ex_after_merge_a ex_merge_req_b =
     (Inr (JObj [(''merged_path'', JStr ''/parts/generated/merged_bot.glb''),
                 (''parts_count'', JInt 2), (''file_size'', JInt 12)]),
      initial (ex_fs @ [(''/srv/bots/public/parts/generated/merged_bot.glb'', File ''part_0part_1'')]))"
  by (simp add: merge_parts_def merge_part_def ex_part_def part_path_str_def ex_site_def
        path_join_def lstrip_slash_def ex_fs_def ex_merge_def initial_def part_transform_def
        part_get_def zero3_def digit_char_def merge_output_path_def OUTPUT_DIR_def
        write_file_def getsize_def ex_merge_req_b_def ex_after_merge_a_def)

text \<open>
  As stated, for every output file, the claim fails on \<^verbatim>\<open>/merge\<close>: two different
  requests that keep the default output name both succeed and write the same path, the
  second over the first.
\<close>

theorem merge_output_collides:
  "ex_merge_req_a \<noteq> ex_merge_req_b \<and>
   map_of (fs (snd (merge_parts ex_site ex_merge (initial ex_fs) ex_merge_req_a)))
       ''/srv/bots/public/parts/generated/merged_bot.glb'' = Some (File ''part_0'') \<and>
   map_of (fs (snd (merge_parts ex_site ex_merge
                      (snd (merge_parts ex_site ex_merge (initial ex_fs) ex_merge_req_a))
                      ex_merge_req_b)))
       ''/srv/bots/public/parts/generated/merged_bot.glb'' = Some (File ''part_0part_1'')"
  by (simp add: ex_merge_a ex_merge_b)
     (simp add: ex_merge_req_a_def ex_merge_req_b_def ex_after_merge_a_def initial_def ex_fs_def)

lemma ex_generate_ok:
  "generate_3d ex_site ex_loader ex_gen (initial []) ex_generate_req =
      (Inr (generate_result ex_gen (ex_mesh 4)), ex_loaded)"
  by (simp add: generate_3d_def get_triposg_models_def load_models_def ex_loader_def
        initial_def generate_body_def preprocess_def ex_gen_def ex_generate_req_def
        reduce_faces_def ex_mesh_def generate_result_def gen_part_id_def gen_output_path_def
        write_file_def OUTPUT_DIR_def path_join_def ex_site_def ex_loaded_def)

lemma ex_search_ok:
  "search_image ex_site ex_search (initial []) \<lparr>query = ''robot arm'', remove_bg = True\<rparr> =
     (Inr (JObj [(''image_id'', JStr ''ref_89abcdef''),
                 (''image_path'', JStr ''/parts/generated/ref_89abcdef.png''),
                 (''source_url'', JStr ''http://img.example/bot.png''),
                 (''size'', JList [JInt 64, JInt 64]),
                 (''all_results'',
                  JList [JObj [(''url'', JStr ''http://img.example/bot.png''),
                               (''title'', JStr ''bot'')]])]),
      initial [(''/srv/bots/public/parts/generated/ref_89abcdef.png'', File ''PNGDATA'')])"
  by (simp add: search_image_def search_body_def ex_search_def strip_background_def
        ref_image_id_def ref_output_path_def OUTPUT_DIR_def path_join_def ex_site_def
        write_file_def initial_def)

theorem output_file_names_witness:
  "(\<exists>bytes. fs ex_loaded =
       write_file (fs (snd (get_triposg_models ex_site ex_loader (initial []))))
         (gen_output_path ex_site ex_gen) bytes) \<and>
   gen_output_path ex_site ex_gen = ''/srv/bots/public/parts/generated/gen_01234567.glb'' \<and>
   gen_output_path ex_site ex_gen \<noteq> gen_output_path ex_site ex_gen_2 \<and>
   ref_output_path ex_site ex_search = ''/srv/bots/public/parts/generated/ref_89abcdef.png'' \<and>
   ref_output_path ex_site ex_search \<noteq> ref_output_path ex_site ex_search_2 \<and>
   (\<exists>bytes. initial [(''/srv/bots/public/parts/generated/ref_89abcdef.png'', File ''PNGDATA'')] =
       (initial [])\<lparr>fs := write_file (fs (initial [])) (ref_output_path ex_site ex_search) bytes\<rparr>) \<and>
   (\<exists>bytes. ex_after_merge_a =
       (initial ex_fs)\<lparr>fs := write_file (fs (initial ex_fs))
                              (merge_output_path ex_site ex_merge_req_a) bytes\<rparr>) \<and>
   merge_output_path ex_site ex_merge_req_a = merge_output_path ex_site ex_merge_req_b \<and>
   work_dir_of ex_site ex_rig_req =
     work_dir_of ex_site \<lparr>glb_path = ''/public/parts/leg.glb'', rig_output_name = ''rigged_bot''\<rparr>"
proof -
  have h2: "take 8 (uuid4_hex ex_gen) \<noteq> take 8 (uuid4_hex ex_gen_2)"
    by (simp add: ex_gen_def ex_gen_2_def)
  have h4: "take 8 (ref_uuid4_hex ex_search) \<noteq> take 8 (ref_uuid4_hex ex_search_2)"
    by (simp add: ex_search_def ex_search_2_def)
  have h6: "output_name ex_merge_req_a = output_name ex_merge_req_b"
    by (simp add: ex_merge_req_a_def ex_merge_req_b_def)
  have h7: "rig_output_name ex_rig_req =
      rig_output_name \<lparr>glb_path = ''/public/parts/leg.glb'', rig_output_name = ''rigged_bot''\<rparr>"
    by (simp add: ex_rig_req_def)
  have ns: "initial [(''/srv/bots/public/parts/generated/ref_89abcdef.png'', File ''PNGDATA'')] \<noteq>
      initial []"
    by (simp add: initial_def)
  note t = output_file_names [where st = ex_site]
  have c1: "\<exists>bytes. fs ex_loaded =
       write_file (fs (snd (get_triposg_models ex_site ex_loader (initial []))))
         (gen_output_path ex_site ex_gen) bytes"
    using t [THEN conjunct1, rule_format, OF ex_generate_ok] .
  have c2: "gen_output_path ex_site ex_gen \<noteq> gen_output_path ex_site ex_gen_2"
    using t [THEN conjunct2, THEN conjunct1, rule_format, OF h2] .
  have c3: "\<exists>bytes. initial [(''/srv/bots/public/parts/generated/ref_89abcdef.png'', File ''PNGDATA'')] =
       (initial [])\<lparr>fs := write_file (fs (initial [])) (ref_output_path ex_site ex_search) bytes\<rparr>"
    using t [THEN conjunct2, THEN conjunct2, THEN conjunct1, rule_format, OF ex_search_ok] ns
    by blast
  have c4: "ref_output_path ex_site ex_search \<noteq> ref_output_path ex_site ex_search_2"
    using t [THEN conjunct2, THEN conjunct2, THEN conjunct2, THEN conjunct1, rule_format, OF h4] .
  have c5: "\<exists>bytes. ex_after_merge_a =
       (initial ex_fs)\<lparr>fs := write_file (fs (initial ex_fs))
                              (merge_output_path ex_site ex_merge_req_a) bytes\<rparr>"
    using t [THEN conjunct2, THEN conjunct2, THEN conjunct2, THEN conjunct2, THEN conjunct1,
        rule_format, OF ex_merge_a] .
  have c6: "merge_output_path ex_site ex_merge_req_a = merge_output_path ex_site ex_merge_req_b"
    using t [THEN conjunct2, THEN conjunct2, THEN conjunct2, THEN conjunct2, THEN conjunct2,
        THEN conjunct1, rule_format, OF h6] .
  have c7: "work_dir_of ex_site ex_rig_req =
     work_dir_of ex_site \<lparr>glb_path = ''/public/parts/leg.glb'', rig_output_name = ''rigged_bot''\<rparr>"
    using t [THEN conjunct2, THEN conjunct2, THEN conjunct2, THEN conjunct2, THEN conjunct2,
        THEN conjunct2, rule_format, OF h7] by simp
  have p1: "gen_output_path ex_site ex_gen = ''/srv/bots/public/parts/generated/gen_01234567.glb''"
    by (simp add: gen_output_path_def gen_part_id_def ex_gen_def OUTPUT_DIR_def path_join_def
          ex_site_def)
  have p2: "ref_output_path ex_site ex_search = ''/srv/bots/public/parts/generated/ref_89abcdef.png''"
    by (simp add: ref_output_path_def ref_image_id_def ex_search_def OUTPUT_DIR_def path_join_def
          ex_site_def)
  from c1 c2 c3 c4 c5 c6 c7 p1 p2 show ?thesis by blast
qed

subsection \<open>What the status endpoint reports\<close>

lemma search_image_pipe: "triposg_pipe (snd (search_image st se s req)) = triposg_pipe s"
proof (cases "search_image st se s req")
  case (Pair out s')
  show ?thesis
  proof (cases out)
    case (Inr r)
    with Pair search_image_writes [of st se s req r s'] show ?thesis by auto
  next
    case (Inl e)
    with Pair show ?thesis
      by (auto simp: search_image_def search_body_def Let_def
          split: option.splits sum.splits list.splits prod.splits if_splits)
  qed
qed

lemma merge_parts_pipe: "triposg_pipe (snd (merge_parts st me s req)) = triposg_pipe s"
  by (auto simp: merge_parts_def Let_def split: sum.splits)

lemma rig_bot_unchanged: "snd (rig_bot st le re s req) = s"
  by (simp add: rig_bot_def call_statement_def module_functions_def Let_def)

lemma snd_as_json: "snd (as_json r) = snd r"
  by (simp add: as_json_def split: prod.splits sum.splits)

lemma dispatch_pipe:
  "\<not> is_generate r \<Longrightarrow> triposg_pipe (snd (dispatch e s r)) = triposg_pipe s"
  by (cases r)
     (simp_all add: snd_as_json search_image_pipe merge_parts_pipe rig_bot_unchanged)

lemma run_pipe_unchanged:
  "\<forall>(e, r) \<in> set rs. \<not> is_generate r \<Longrightarrow> triposg_pipe (run s rs) = triposg_pipe s"
  by (induction rs arbitrary: s) (auto simp: dispatch_pipe)

lemma get_triposg_models_loaded:
  "get_triposg_models st le s = (Inr (Some p, rm), s') \<Longrightarrow> triposg_pipe s' = Some p"
  by (auto simp: get_triposg_models_def load_models_def Let_def
      split: option.splits prod.splits sum.splits if_splits)

lemma get_triposg_models_raises_base:
  "get_triposg_models st le s = (Inl e, s') \<Longrightarrow> \<exists>m. e = Exc BaseOnly m"
  by (auto simp: get_triposg_models_def isinstance_Exception_def
      split: option.splits prod.splits sum.splits if_splits)

lemma generate_body_pipe:
  "triposg_pipe (snd (generate_body st ge s req p rm)) = triposg_pipe s"
  by (auto simp: generate_body_def Let_def split: sum.splits)

lemma generate_3d_loaded:
  assumes "generate_3d st le ge s req = (out, s')"
    and "(\<exists>r. out = Inr r) \<or> (\<exists>m. out = Inl (HTTPException 500 m))"
  shows "triposg_pipe s' \<noteq> None"
proof -
  from assms obtain p rm s1 where acq: "get_triposg_models st le s = (Inr (Some p, rm), s1)"
      and s': "s' = snd (generate_body st ge s1 req p rm)"
    by (auto simp: generate_3d_def dest: get_triposg_models_raises_base
        split: option.splits prod.splits sum.splits if_splits)
  from get_triposg_models_loaded [OF acq] generate_body_pipe [of st ge s1 req p rm] s'
  show ?thesis by simp
qed

text \<open>
  C7, as the code has it. After any sequence of requests with no \<^verbatim>\<open>/generate\<close> among
  them, from the state the module starts in, \<^verbatim>\<open>/status\<close> reports the models as not
  loaded. After a \<^verbatim>\<open>/generate\<close> call that got its models, that is one that returned a
  result or the 500 of a failed generation, \<^verbatim>\<open>/status\<close> reports them as loaded.
\<close>

theorem status_reports:
  "((\<forall>(e, r) \<in> set rs. \<not> is_generate r) \<longrightarrow>
      reports_loaded (status st se (run (initial f) rs)) = Some False) \<and>
   (generate_3d st le ge s req = (out, s') \<longrightarrow>
    (\<exists>r. out = Inr r) \<or> (\<exists>m. out = Inl (HTTPException 500 m)) \<longrightarrow>
      reports_loaded (status st se s') = Some True)"
proof (intro conjI impI)
  assume "\<forall>(e, r) \<in> set rs. \<not> is_generate r"
  then have "triposg_pipe (run (initial f) rs) = None"
    by (simp add: run_pipe_unchanged initial_def)
  then show "reports_loaded (status st se (run (initial f) rs)) = Some False"
    by (simp add: reports_loaded_def status_def)
next
  assume "generate_3d st le ge s req = (out, s')"
    and "(\<exists>r. out = Inr r) \<or> (\<exists>m. out = Inl (HTTPException 500 m))"
  then have "triposg_pipe s' \<noteq> None" by (rule generate_3d_loaded)
  then show "reports_loaded (status st se s') = Some True"
    by (simp add: reports_loaded_def status_def)
qed

theorem status_reports_witness:
  "reports_loaded (status ex_site ex_status_env
      (run (initial ex_fs) [(ex_env, Status), (ex_env, Merge ex_merge_req_a), (ex_env, Rig ex_rig_req)]))
     = Some False \<and>
   reports_loaded (status ex_site ex_status_env
      (snd (generate_3d ex_site ex_loader ex_gen (initial []) ex_generate_req))) = Some True"
proof -
  have h1: "\<forall>(e, r) \<in> set [(ex_env, Status), (ex_env, Merge ex_merge_req_a), (ex_env, Rig ex_rig_req)].
      \<not> is_generate r"
    by simp
  have h2: "(\<exists>r. (Inr (generate_result ex_gen (ex_mesh 4)) :: pyexc + json) = Inr r) \<or>
      (\<exists>m. (Inr (generate_result ex_gen (ex_mesh 4)) :: pyexc + json) = Inl (HTTPException 500 m))"
    by simp
  have a: "reports_loaded (status ex_site ex_status_env
      (run (initial ex_fs) [(ex_env, Status), (ex_env, Merge ex_merge_req_a), (ex_env, Rig ex_rig_req)]))
     = Some False"
    using status_reports [THEN conjunct1, THEN mp, OF h1] .
  have b: "reports_loaded (status ex_site ex_status_env ex_loaded) = Some True"
    using status_reports [THEN conjunct2, THEN mp, THEN mp, OF ex_generate_ok h2] .
  from a b show ?thesis by (simp add: ex_generate_ok)
qed

text \<open>
  As stated, for every execution, the second half of the claim fails: where the library is
  not installed the \<^verbatim>\<open>/generate\<close> call ends in the 503, and \<^verbatim>\<open>/status\<close> after it still
  reports the models as not loaded.
\<close>

theorem status_after_failed_load:
  "fst (dispatch ex_env_missing (initial []) (Generate ex_generate_req)) =
     Inl (HTTPException 503 ''TripoSG model not available. Install dependencies first.'') \<and>
   fst (dispatch ex_env_missing
          (run (initial []) [(ex_env_missing, Generate ex_generate_req)]) Status) =
     Inr (Json (JObj [(''gpu'', JObj [(''available'', JBool False)]),
                      (''triposg_loaded'', JBool False),
                      (''output_dir'', JStr ''/srv/bots/public/parts/generated''),
                      (''generated_parts'', JInt 0)]))"
  by (simp add: ex_env_missing_def ex_env_def as_json_def generate_3d_def get_triposg_models_def
        load_models_def ex_loader_missing_def ex_loader_def initial_def status_def
        ex_status_env_def OUTPUT_DIR_def path_join_def ex_site_def glob_glb_def)

subsection \<open>The conversion step of the rigging pipeline\<close>

lemma rig_result_no_skin:
  "\<not> path_exists f (skin_json_path st req) \<Longrightarrow> rig_result st re f req = Inr (no_skin_result st req)"
  by (simp add: rig_result_def path_exists_def no_skin_result_def)

text \<open>
  C5, as the code has it. In the handler's \<^verbatim>\<open>try\<close> block, once both mandatory steps
  have succeeded and the conversion script exists: when the conversion subprocess returns,
  with whatever exit code, and no \<^verbatim>\<open>skin.json\<close> is in the work directory, the outcome is
  a success whose skin-data field is null; when the conversion subprocess times out, the
  outcome is the 504 timeout failure.
\<close>

theorem rig_conversion_failure:
  assumes "mkdir_p (fs s) (work_dir_of st req) = Inr f1"
    and "py = unirig_python st f1"
    and "mandatory_step st re (s\<lparr>fs := f1\<rparr>) (skel_cmd py glb (work_dir_of st req))
           ''Skeleton prediction failed: '' = (Inr (), s2)"
    and "mandatory_step st re s2 (skin_cmd py glb (work_dir_of st req))
           ''Skin prediction failed: '' = (Inr (), s3)"
    and "path_exists (fs s3) (skin_export_script st)"
  shows "(\<forall>res s4. run_step re s3 (export_cmd st req py) (UNIRIG_DIR st) 30 = (Inr res, s4) \<longrightarrow>
            \<not> path_exists (fs s4) (skin_json_path st req) \<longrightarrow>
            rig_pipeline st re s req glb = (Inr (no_skin_result st req), s4)) \<and>
         (\<forall>m s4. run_step re s3 (export_cmd st req py) (UNIRIG_DIR st) 30 =
                    (Inl (TimeoutExpired, m), s4) \<longrightarrow>
            rig_pipeline st re s req glb =
              (Inl (HTTPException 504 ''Rigging timed out (120s limit)''), s4))"
  using assms
  by (auto simp: rig_pipeline_def rig_try_def export_step_def rig_result_no_skin Let_def)

lemma ex_rig_paths:
  "work_dir_of ex_site ex_rig_req = ex_rig_dir"
  "mkdir_p (fs (initial ex_fs)) ex_rig_dir = Inr (ex_fs @ [(ex_rig_dir, Dir)])"
  "unirig_python ex_site (ex_fs @ [(ex_rig_dir, Dir)]) = ''/usr/bin/python3''"
  "(initial ex_fs)\<lparr>fs := ex_fs @ [(ex_rig_dir, Dir)]\<rparr> = ex_rig_state []"
  "path_exists (fs (ex_rig_state cs)) (skin_export_script ex_site)"
  "\<not> path_exists (fs (ex_rig_state cs)) (skin_json_path ex_site ex_rig_req)"
  by (simp_all add: work_dir_of_def OUTPUT_DIR_def path_join_def ex_site_def ex_rig_req_def
        ex_rig_dir_def mkdir_p_def initial_def ex_fs_def unirig_python_def UNIRIG_DIR_def
        TOOLS_DIR_def path_exists_def ex_rig_state_def skin_export_script_def skin_json_path_def)

lemma ex_rig_steps:
  assumes "\<And>cmd cwd f. subprocess_run re cmd cwd 120 f = (Inr \<lparr>returncode = 0, stderr = []\<rparr>, f)"
  shows "mandatory_step ex_site re (ex_rig_state cs) cmd label = (Inr (), ex_rig_state (cs @ [CallSubprocess cmd]))"
  by (simp add: mandatory_step_def run_step_def assms ex_rig_state_def)

theorem rig_conversion_failure_witness:
  "rig_pipeline ex_site ex_rig_nonzero (initial ex_fs) ex_rig_req ex_rig_glb =
     (Inr (JObj [(''output_dir'', JStr ''/srv/bots/public/parts/generated/rig_rigged_bot''),
                 (''glb_input'', JStr ''/public/parts/arm.glb''),
                 (''skin_json'', JNull),
                 (''message'', JStr ''Rigging completed but skin.json not generated'')]),
      ex_rig_state ex_rig_calls) \<and>
   rig_pipeline ex_site ex_rig_timeout (initial ex_fs) ex_rig_req ex_rig_glb =
     (Inl (HTTPException 504 ''Rigging timed out (120s limit)''), ex_rig_state ex_rig_calls)"
proof -
  let ?py = "''/usr/bin/python3''"
  let ?skel = "CallSubprocess (skel_cmd ?py ex_rig_glb ex_rig_dir)"
  let ?skin = "CallSubprocess (skin_cmd ?py ex_rig_glb ex_rig_dir)"
  have a1: "mkdir_p (fs (initial ex_fs)) (work_dir_of ex_site ex_rig_req) =
      Inr (ex_fs @ [(ex_rig_dir, Dir)])"
    by (simp add: ex_rig_paths)
  have a2: "?py = unirig_python ex_site (ex_fs @ [(ex_rig_dir, Dir)])"
    by (simp add: ex_rig_paths)
  have a5: "path_exists (fs (ex_rig_state [?skel, ?skin])) (skin_export_script ex_site)"
    by (rule ex_rig_paths)
  have n3: "mandatory_step ex_site ex_rig_nonzero ((initial ex_fs)\<lparr>fs := ex_fs @ [(ex_rig_dir, Dir)]\<rparr>)
      (skel_cmd ?py ex_rig_glb (work_dir_of ex_site ex_rig_req)) ''Skeleton prediction failed: '' =
      (Inr (), ex_rig_state [?skel])"
    using ex_rig_steps [of ex_rig_nonzero "[]"]
    by (simp add: ex_rig_paths ex_rig_nonzero_def ex_rig_def)
  have n4: "mandatory_step ex_site ex_rig_nonzero (ex_rig_state [?skel])
      (skin_cmd ?py ex_rig_glb (work_dir_of ex_site ex_rig_req)) ''Skin prediction failed: '' =
      (Inr (), ex_rig_state [?skel, ?skin])"
    using ex_rig_steps [of ex_rig_nonzero "[?skel]"]
    by (simp add: ex_rig_paths ex_rig_nonzero_def ex_rig_def)
  have n6: "run_step ex_rig_nonzero (ex_rig_state [?skel, ?skin])
      (export_cmd ex_site ex_rig_req ?py) (UNIRIG_DIR ex_site) 30 =
      (Inr \<lparr>returncode = 1, stderr = ''no predict_skin.npz''\<rparr>, ex_rig_state ex_rig_calls)"
    by (simp add: run_step_def ex_rig_nonzero_def ex_rig_def ex_rig_state_def ex_rig_calls_def)
  have n7: "\<not> path_exists (fs (ex_rig_state ex_rig_calls)) (skin_json_path ex_site ex_rig_req)"
    by (rule ex_rig_paths)
  have t3: "mandatory_step ex_site ex_rig_timeout ((initial ex_fs)\<lparr>fs := ex_fs @ [(ex_rig_dir, Dir)]\<rparr>)
      (skel_cmd ?py ex_rig_glb (work_dir_of ex_site ex_rig_req)) ''Skeleton prediction failed: '' =
      (Inr (), ex_rig_state [?skel])"
    using ex_rig_steps [of ex_rig_timeout "[]"]
    by (simp add: ex_rig_paths ex_rig_timeout_def ex_rig_def)
  have t4: "mandatory_step ex_site ex_rig_timeout (ex_rig_state [?skel])
      (skin_cmd ?py ex_rig_glb (work_dir_of ex_site ex_rig_req)) ''Skin prediction failed: '' =
      (Inr (), ex_rig_state [?skel, ?skin])"
    using ex_rig_steps [of ex_rig_timeout "[?skel]"]
    by (simp add: ex_rig_paths ex_rig_timeout_def ex_rig_def)
  have t6: "run_step ex_rig_timeout (ex_rig_state [?skel, ?skin])
      (export_cmd ex_site ex_rig_req ?py) (UNIRIG_DIR ex_site) 30 =
      (Inl (TimeoutExpired, ''timed out after 30 seconds''), ex_rig_state ex_rig_calls)"
    by (simp add: run_step_def ex_rig_timeout_def ex_rig_def ex_rig_state_def ex_rig_calls_def)
  have r1: "rig_pipeline ex_site ex_rig_nonzero (initial ex_fs) ex_rig_req ex_rig_glb =
      (Inr (no_skin_result ex_site ex_rig_req), ex_rig_state ex_rig_calls)"
    using rig_conversion_failure [OF a1 a2 n3 n4 a5, THEN conjunct1, rule_format, OF n6 n7] .
  have r2: "rig_pipeline ex_site ex_rig_timeout (initial ex_fs) ex_rig_req ex_rig_glb =
      (Inl (HTTPException 504 ''Rigging timed out (120s limit)''), ex_rig_state ex_rig_calls)"
    using rig_conversion_failure [OF a1 a2 t3 t4 a5, THEN conjunct2, rule_format, OF t6] .
  have g: "glb_path ex_rig_req = ''/public/parts/arm.glb''" by (simp add: ex_rig_req_def)
  from r1 r2 show ?thesis
    by (simp add: no_skin_result_def ex_rig_paths(1) g ex_rig_dir_def)
qed

text \<open>
  As stated, with a timeout of the conversion among the tolerated failures, the claim
  fails. With a toolchain whose two mandatory steps exit 0 and whose conversion times out,
  the \<^verbatim>\<open>try\<close> block ends in the 504 after all three subprocesses were started, and the
  handler as a whole ends in the \<^verbatim>\<open>NameError\<close> of its release statement: neither is a
  success with a null skin-data field.
\<close>

theorem rig_conversion_timeout_fails:
  "rig_pipeline ex_site ex_rig_timeout (initial ex_fs) ex_rig_req ex_rig_glb =
     (Inl (HTTPException 504 ''Rigging timed out (120s limit)''), ex_rig_state ex_rig_calls) \<and>
   rig_bot ex_site ex_loader ex_rig_timeout (initial ex_fs) ex_rig_req =
     (Inl (Exc NameError (''name '' @ repr_str ''unload_triposr'' @ '' is not defined'')),
      initial ex_fs)"
  by (simp add: rig_pipeline_def rig_try_def mandatory_step_def run_step_def export_step_def
        ex_rig_timeout_def ex_rig_def ex_rig_state_def ex_rig_calls_def
        rig_bot_def call_statement_def module_functions_def path_exists_def ex_fs_def
        initial_def path_join_def lstrip_slash_def ex_site_def ex_rig_req_def ex_rig_glb_def
        ex_rig_dir_def skel_cmd_def skin_cmd_def export_cmd_def work_dir_of_def OUTPUT_DIR_def
        mkdir_p_def unirig_python_def UNIRIG_DIR_def TOOLS_DIR_def skin_export_script_def
        skin_json_path_def Let_def)

end
